theory Spec2Isabelle
  imports Main
begin

section \<open>The proxy-aware fetcher of main.py\<close>

subsection \<open>The requests library as the function sees it\<close>

text \<open>
  The exception classes of \<^verbatim>\<open>requests.exceptions\<close> that the three \<^verbatim>\<open>except\<close> clauses
  of \<^verbatim>\<open>fetch_data_with_retry\<close> tell apart. Every exception that requests raises is a
  \<^verbatim>\<open>RequestException\<close> (the contract of the library); \<^verbatim>\<open>ConnectTimeout\<close> inherits
  from both \<^verbatim>\<open>ConnectionError\<close> and \<^verbatim>\<open>Timeout\<close>; \<^verbatim>\<open>HTTPError\<close> is what
  \<^verbatim>\<open>raise_for_status\<close> raises. \<open>ConnectionError\<close> and \<open>Timeout\<close> stand for these classes
  and their other subclasses (proxy and SSL errors, read timeouts), which the clauses do not
  tell apart. The last constructor stands for every other request error (invalid URL, too
  many redirects, ...).
\<close>

datatype request_exn =
    ConnectionError
  | ConnectTimeout
  | Timeout
  | HTTPError
  | RequestException

fun isinstance_ConnectionError :: "request_exn \<Rightarrow> bool" where
  "isinstance_ConnectionError ConnectionError = True"
| "isinstance_ConnectionError ConnectTimeout = True"
| "isinstance_ConnectionError e = False"

fun isinstance_Timeout :: "request_exn \<Rightarrow> bool" where
  "isinstance_Timeout Timeout = True"
| "isinstance_Timeout ConnectTimeout = True"
| "isinstance_Timeout e = False"

text \<open>A retryable error, in the spec's words: a connection error or a timeout.\<close>

definition retryable :: "request_exn \<Rightarrow> bool" where
  "retryable e = (isinstance_ConnectionError e \<or> isinstance_Timeout e)"

text \<open>
  The exceptions met that are not request exceptions: \<^verbatim>\<open>ValueError\<close>,
  \<^verbatim>\<open>OverflowError\<close> and \<^verbatim>\<open>OSError\<close> are what \<^verbatim>\<open>time.sleep\<close> raises; \<^verbatim>\<open>TypeError\<close> is
  what \<^verbatim>\<open>+\<close> raises between \<^verbatim>\<open>None\<close> and a string; \<^verbatim>\<open>LocationParseError\<close> is the
  exception of urllib3 that \<^verbatim>\<open>requests.get\<close> lets through unchanged (for a proxy host with a
  label of more than 63 characters); \<^verbatim>\<open>RecursionError\<close> is raised where the interpreter's
  recursion limit is met. Neither is a \<^verbatim>\<open>RequestException\<close>, and they stand here for
  whatever else a GET lets out.
\<close>

datatype exn =
    ValueError
  | OverflowError
  | OSError
  | TypeError
  | LocationParseError
  | RecursionError

record response =
  status_code :: nat
  content :: string

text \<open>What one GET does: it returns a response, raises a request exception, or lets out
  an exception that is not one.\<close>

datatype get_outcome = Response response | Raise request_exn | Raise_other exn

text \<open>
  The network is a parameter: what the k-th call of \<^verbatim>\<open>requests.get\<close> (counted from 0 over
  the whole run) does for a URL and a proxies dictionary. The dictionary is an association
  list in the order the source writes it.
\<close>

type_synonym proxies = "(string \<times> string) list"
type_synonym network = "string \<Rightarrow> proxies \<Rightarrow> nat \<Rightarrow> get_outcome"

text \<open>The \<^verbatim>\<open>proxies\<close> dictionary the function builds from its two f-strings: one
  route per scheme, both through the given host and port.\<close>

definition proxies_of :: "string \<Rightarrow> string \<Rightarrow> proxies" where
  "proxies_of proxy_ip proxy_port =
     [(''http'', ''http://'' @ proxy_ip @ '':'' @ proxy_port),
      (''https'', ''https://'' @ proxy_ip @ '':'' @ proxy_port)]"

text \<open>What the function prints, one constructor per \<^verbatim>\<open>print\<close> of the source.\<close>

datatype line =
    Connection_error_occurred request_exn
  | Retrying_in_seconds int
  | Max_retries_reached_connection
  | Request_timed_out_Retrying
  | Max_retries_reached_timeout
  | Request_error_occurred request_exn

text \<open>
  The world of a run: the GET requests issued, the sleeps completed (their lengths in
  seconds, in order), the lines printed, and what the operating system answers to a sleep:
  \<open>sleep_rejected w k secs\<close> holds when it refuses the k-th sleep of the run (counted from 0)
  for the length \<open>secs\<close>. No operation changes that field.
\<close>

record world =
  gets :: nat
  slept :: "int list"
  stdout :: "line list"
  sleep_rejected :: "nat \<Rightarrow> int \<Rightarrow> bool"

definition requests_get :: "network \<Rightarrow> string \<Rightarrow> proxies \<Rightarrow> world \<Rightarrow> get_outcome \<times> world" where
  "requests_get net url proxies w = (net url proxies (gets w), w\<lparr>gets := gets w + 1\<rparr>)"

text \<open>\<^verbatim>\<open>Response.raise_for_status\<close>: an \<^verbatim>\<open>HTTPError\<close> for a status from 400 to 599.\<close>

definition raise_for_status :: "response \<Rightarrow> request_exn + unit" where
  "raise_for_status r =
     (if 400 \<le> status_code r \<and> status_code r < 600 then Inl HTTPError else Inr ())"

text \<open>
  \<^verbatim>\<open>time.sleep\<close> on an integer (CPython 3.11): the length is converted to a count of
  nanoseconds in 64 bits, with \<^verbatim>\<open>OverflowError\<close> when it does not fit, that is beyond
  9223372036 seconds either way; a negative length is a \<^verbatim>\<open>ValueError\<close>; otherwise the
  operating system is asked and may refuse (\<^verbatim>\<open>OSError\<close>: Linux refuses lengths close to
  the bound, depending on its clock).
\<close>

definition sleep :: "int \<Rightarrow> world \<Rightarrow> (exn + unit) \<times> world" where
  "sleep secs w =
     (if secs < - 9223372036 \<or> 9223372036 < secs then (Inl OverflowError, w)
      else if secs < 0 then (Inl ValueError, w)
      else if sleep_rejected w (length (slept w)) secs then (Inl OSError, w)
      else (Inr (), w\<lparr>slept := slept w @ [secs]\<rparr>))"

text \<open>The k-th sleep of the run completes for the length \<open>secs\<close>.\<close>

definition sleep_completes :: "world \<Rightarrow> nat \<Rightarrow> int \<Rightarrow> bool" where
  "sleep_completes w k secs = (0 \<le> secs \<and> secs \<le> 9223372036 \<and> \<not> sleep_rejected w k secs)"

text \<open>\<^verbatim>\<open>print\<close> is taken to succeed.\<close>

definition print :: "line \<Rightarrow> world \<Rightarrow> world" where
  "print l w = w\<lparr>stdout := stdout w @ [l]\<rparr>"

text \<open>The \<^verbatim>\<open>try\<close> block of the function: the GET and the status check. Its outcome is
  the response it returns or the exception that the GET or the check raises.\<close>

definition try_get :: "network \<Rightarrow> string \<Rightarrow> proxies \<Rightarrow> world \<Rightarrow> get_outcome \<times> world" where
  "try_get net url proxies w =
     (case requests_get net url proxies w of
        (Response r, w') \<Rightarrow>
          (case raise_for_status r of Inl e \<Rightarrow> (Raise e, w') | Inr u \<Rightarrow> (Response r, w'))
      | (Raise e, w') \<Rightarrow> (Raise e, w')
      | (Raise_other ex, w') \<Rightarrow> (Raise_other ex, w'))"

subsection \<open>fetch_data_with_retry\<close>

text \<open>
  The result is \<open>Inr (Some response)\<close> for \<^verbatim>\<open>return response\<close>, \<open>Inr None\<close> for
  \<^verbatim>\<open>return None\<close> and \<open>Inl e\<close> for an exception that leaves the function. The
  \<^verbatim>\<open>except\<close> clauses are tried in the order of the source, and an exception that is not a
  request exception matches none of them and leaves the function; the calls of
  \<^verbatim>\<open>sleep\<close> stand inside the handlers, outside the \<^verbatim>\<open>try\<close> block, so what they raise
  is not caught either. The retry budget and the delay are Python integers. Every GET is
  taken to come back. The recursion limit of the interpreter is met, if at all, inside
  \<^verbatim>\<open>requests.get\<close>, whose chain of calls is deeper than the one frame of a recursive call
  of the function (\<^verbatim>\<open>print\<close> and \<^verbatim>\<open>sleep\<close> are built in): the \<^verbatim>\<open>RecursionError\<close> is
  then one of the exceptions that a GET lets out.
\<close>

function fetch_data_with_retry ::
  "network \<Rightarrow> string \<Rightarrow> string \<Rightarrow> string \<Rightarrow> int \<Rightarrow> int \<Rightarrow> world \<Rightarrow> (exn + response option) \<times> world"
where
  "fetch_data_with_retry net url proxy_ip proxy_port retries delay w =
     (let proxies = proxies_of proxy_ip proxy_port
      in case try_get net url proxies w of
           (Response response, w1) \<Rightarrow> (Inr (Some response), w1)
         | (Raise e, w1) \<Rightarrow>
             if isinstance_ConnectionError e then
               (let w2 = print (Connection_error_occurred e) w1 in
                if retries > 0 then
                  (case sleep delay (print (Retrying_in_seconds delay) w2) of
                     (Inl ex, w3) \<Rightarrow> (Inl ex, w3)
                   | (Inr u, w3) \<Rightarrow>
                       fetch_data_with_retry net url proxy_ip proxy_port (retries - 1) delay w3)
                else (Inr None, print Max_retries_reached_connection w2))
             else if isinstance_Timeout e then
               (let w2 = print Request_timed_out_Retrying w1 in
                if retries > 0 then
                  (case sleep delay w2 of
                     (Inl ex, w3) \<Rightarrow> (Inl ex, w3)
                   | (Inr u, w3) \<Rightarrow>
                       fetch_data_with_retry net url proxy_ip proxy_port (retries - 1) delay w3)
                else (Inr None, print Max_retries_reached_timeout w2))
             else (Inr None, print (Request_error_occurred e) w1)
         | (Raise_other ex, w1) \<Rightarrow> (Inl ex, w1))"
  by pat_completeness auto
termination
  by (relation "measure (\<lambda>(net, url, proxy_ip, proxy_port, retries, delay, w). nat retries)") auto

declare fetch_data_with_retry.simps [simp del]

text \<open>The scenarios of the retry properties: the k-th GET of the run fails with a
  retryable error; the k-th GET answers with a status that passes the check; the k-th GET
  lets out an exception that is not a request exception.\<close>

definition fails_retryably :: "network \<Rightarrow> string \<Rightarrow> string \<Rightarrow> string \<Rightarrow> nat \<Rightarrow> bool" where
  "fails_retryably net url proxy_ip proxy_port k =
     (case net url (proxies_of proxy_ip proxy_port) k of
        Raise e \<Rightarrow> retryable e
      | Response r \<Rightarrow> False
      | Raise_other ex \<Rightarrow> False)"

definition succeeds_with :: "network \<Rightarrow> string \<Rightarrow> string \<Rightarrow> string \<Rightarrow> nat \<Rightarrow> response \<Rightarrow> bool" where
  "succeeds_with net url proxy_ip proxy_port k r =
     (net url (proxies_of proxy_ip proxy_port) k = Response r \<and>
      \<not> (400 \<le> status_code r \<and> status_code r < 600))"

definition lets_out :: "network \<Rightarrow> string \<Rightarrow> string \<Rightarrow> string \<Rightarrow> nat \<Rightarrow> bool" where
  "lets_out net url proxy_ip proxy_port k =
     (case net url (proxies_of proxy_ip proxy_port) k of
        Raise_other ex \<Rightarrow> True
      | Response r \<Rightarrow> False
      | Raise e \<Rightarrow> False)"

subsection \<open>Concrete networks\<close>

definition refuses_no_sleep :: "nat \<Rightarrow> int \<Rightarrow> bool" where
  "refuses_no_sleep k secs = False"

definition world0 :: world where
  "world0 = \<lparr>gets = 0, slept = [], stdout = [], sleep_rejected = refuses_no_sleep\<rparr>"



definition always_refused :: network where
  "always_refused url proxies k = Raise ConnectionError"






definition unparsable_proxy :: network where
  "unparsable_proxy url proxies k = Raise_other LocationParseError"

definition stack_runs_out :: network where
  "stack_runs_out url proxies k = (if k < 2 then Raise ConnectionError else Raise_other RecursionError)"

section \<open>The scrape-and-save pipeline of main.py\<close>

subsection \<open>Formatting\<close>

text \<open>Decimal digits (\<open>digit n\<close> is the last decimal digit of \<open>n\<close>), \<^verbatim>\<open>str\<close> of a natural
  number (the loop ordinals are formatted by an f-string), and the zero-padded fixed-width
  fields of \<^verbatim>\<open>strftime\<close>: two digits for \<^verbatim>\<open>%m %d %H %M %S\<close>, four for \<^verbatim>\<open>%Y\<close>.\<close>

definition digit :: "nat \<Rightarrow> char" where
  "digit n = ''0123456789'' ! (n mod 10)"

fun str_nat :: "nat \<Rightarrow> string" where
  "str_nat n = (if n < 10 then [digit n] else str_nat (n div 10) @ [digit n])"

declare str_nat.simps [simp del]

definition two_digits :: "nat \<Rightarrow> string" where
  "two_digits n = [digit (n div 10), digit n]"

definition four_digits :: "nat \<Rightarrow> string" where
  "four_digits n = [digit (n div 1000), digit (n div 100), digit (n div 10), digit n]"

record datetime =
  year :: nat
  month :: nat
  day :: nat
  hour :: nat
  minute :: nat
  second :: nat
  microsecond :: nat

text \<open>The ranges of the fields of a Python \<^verbatim>\<open>datetime\<close>.\<close>

definition valid_datetime :: "datetime \<Rightarrow> bool" where
  "valid_datetime t =
     (1 \<le> year t \<and> year t \<le> 9999 \<and> 1 \<le> month t \<and> month t \<le> 12 \<and> 1 \<le> day t \<and> day t \<le> 31 \<and>
      hour t < 24 \<and> minute t < 60 \<and> second t < 60 \<and> microsecond t < 1000000)"

text \<open>\<^verbatim>\<open>now.strftime('%Y%m%d%H%M%S')\<close> and \<^verbatim>\<open>now.strftime("%Y-%m-%d %H:%M:%S")\<close>.\<close>

definition strftime_compact :: "datetime \<Rightarrow> string" where
  "strftime_compact t =
     four_digits (year t) @ two_digits (month t) @ two_digits (day t) @
     two_digits (hour t) @ two_digits (minute t) @ two_digits (second t)"

definition strftime_iso :: "datetime \<Rightarrow> string" where
  "strftime_iso t =
     four_digits (year t) @ ''-'' @ two_digits (month t) @ ''-'' @ two_digits (day t) @ '' '' @
     two_digits (hour t) @ '':'' @ two_digits (minute t) @ '':'' @ two_digits (second t)"

text \<open>Two clock readings agree to the second.\<close>

definition same_second :: "datetime \<Rightarrow> datetime \<Rightarrow> bool" where
  "same_second a b =
     (year a = year b \<and> month a = month b \<and> day a = day b \<and>
      hour a = hour b \<and> minute a = minute b \<and> second a = second b)"

subsection \<open>Records, documents, rows\<close>

text \<open>A topic record is a dictionary from the trend source; \<^verbatim>\<open>topic.get(key, default)\<close>
  reads it.\<close>

type_synonym topic = "string \<rightharpoonup> string"

definition dict_get :: "topic \<Rightarrow> string \<Rightarrow> string \<Rightarrow> string" where
  "dict_get topic key fallback = (case topic key of Some v \<Rightarrow> v | None \<Rightarrow> fallback)"

record document =
  unique_id :: string
  name_of_trend :: string
  date_time_of_script_completion :: string
  ip_address_used :: string

record row =
  ID :: string
  NAME :: string
  DATE :: string
  PROXY :: string

text \<open>The dictionary literal of the loop of \<^verbatim>\<open>save_to_mongodb\<close> and the one of the loop
  of the button handler, for the ordinal \<open>i\<close> and the record \<open>topic\<close>.\<close>

definition make_document :: "datetime \<Rightarrow> string \<Rightarrow> string \<Rightarrow> nat \<times> topic \<Rightarrow> document" where
  "make_document now proxy_ip proxy_port p =
     (case p of (i, topic) \<Rightarrow>
        \<lparr>unique_id = strftime_compact now @ ''_'' @ str_nat i,
         name_of_trend = dict_get topic ''name'' (''Trend '' @ str_nat i),
         date_time_of_script_completion = strftime_iso now,
         ip_address_used = proxy_ip @ '':'' @ proxy_port\<rparr>)"

definition make_row :: "datetime \<Rightarrow> string \<Rightarrow> string \<Rightarrow> nat \<times> topic \<Rightarrow> row" where
  "make_row now proxy_ip proxy_port p =
     (case p of (i, topic) \<Rightarrow>
        \<lparr>ID = strftime_compact now @ ''_'' @ str_nat i,
         NAME = dict_get topic ''name'' (''Trend '' @ str_nat i),
         DATE = strftime_iso now,
         PROXY = proxy_ip @ '':'' @ proxy_port\<rparr>)"

subsection \<open>The collaborators\<close>

text \<open>
  The trend source, the clock and the database are parameters. An exception is its message
  (what \<^verbatim>\<open>str(e)\<close> gives). \<open>actor_call\<close> is the outcome of running the actor and reading
  its dataset for a proxy host and port (each a string, or \<^verbatim>\<open>None\<close>); \<open>clock\<close> is the k-th reading of
  \<^verbatim>\<open>datetime.now()\<close>; \<open>mongo_client_raises\<close> and \<open>insert_one_raises\<close> say whether the k-th
  \<^verbatim>\<open>MongoClient(...)\<close> and the k-th \<^verbatim>\<open>insert_one\<close> of the run raise (all counted from 0).
  An insert that raises writes nothing.
\<close>

record env =
  actor_call :: "string option \<Rightarrow> string option \<Rightarrow> string + topic list"
  clock :: "nat \<Rightarrow> datetime"
  mongo_client_raises :: "nat \<Rightarrow> string option"
  insert_one_raises :: "nat \<Rightarrow> string option"

datatype ui_event =
    St_write string
  | St_dataframe "row list"
  | St_success string
  | St_warning string
  | St_error string

text \<open>The effects of a run: what Streamlit shows, the clock readings taken, the database
  clients opened, the inserts issued and the documents of the collection \<^verbatim>\<open>topics\<close> (in
  insertion order, without the \<^verbatim>\<open>_id\<close> the driver adds).\<close>

record app =
  ui :: "ui_event list"
  now_calls :: nat
  clients :: nat
  inserts :: nat
  topics_collection :: "document list"

definition st :: "ui_event \<Rightarrow> app \<Rightarrow> app" where
  "st ev s = s\<lparr>ui := ui s @ [ev]\<rparr>"

definition datetime_now :: "env \<Rightarrow> app \<Rightarrow> datetime \<times> app" where
  "datetime_now e s = (clock e (now_calls s), s\<lparr>now_calls := now_calls s + 1\<rparr>)"

definition MongoClient :: "env \<Rightarrow> app \<Rightarrow> (string + unit) \<times> app" where
  "MongoClient e s =
     (case mongo_client_raises e (clients s) of
        Some msg \<Rightarrow> (Inl msg, s\<lparr>clients := clients s + 1\<rparr>)
      | None \<Rightarrow> (Inr (), s\<lparr>clients := clients s + 1\<rparr>))"

definition insert_one :: "env \<Rightarrow> document \<Rightarrow> app \<Rightarrow> (string + unit) \<times> app" where
  "insert_one e d s =
     (case insert_one_raises e (inserts s) of
        Some msg \<Rightarrow> (Inl msg, s\<lparr>inserts := inserts s + 1\<rparr>)
      | None \<Rightarrow>
          (Inr (), s\<lparr>inserts := inserts s + 1, topics_collection := topics_collection s @ [d]\<rparr>))"

subsection \<open>fetch_latest_topics, save_to_mongodb and the button handler\<close>

definition fetch_latest_topics ::
  "env \<Rightarrow> string option \<Rightarrow> string option \<Rightarrow> app \<Rightarrow> topic list \<times> app"
where
  "fetch_latest_topics e proxy_ip proxy_port s =
     (case actor_call e proxy_ip proxy_port of
        Inr results \<Rightarrow> (results, s)
      | Inl msg \<Rightarrow> ([], st (St_error (''Error fetching topics: '' @ msg)) s))"

text \<open>The \<^verbatim>\<open>for\<close> loop of \<^verbatim>\<open>save_to_mongodb\<close> over \<^verbatim>\<open>enumerate(data[:5], start=1)\<close>: the
  first insert that raises ends it.\<close>

fun insert_documents ::
  "env \<Rightarrow> datetime \<Rightarrow> string \<Rightarrow> string \<Rightarrow> (nat \<times> topic) list \<Rightarrow> app \<Rightarrow> (string + unit) \<times> app"
where
  "insert_documents e now proxy_ip proxy_port [] s = (Inr (), s)"
| "insert_documents e now proxy_ip proxy_port (p # ps) s =
     (let document = make_document now proxy_ip proxy_port p
      in case insert_one e document s of
           (Inl msg, s') \<Rightarrow> (Inl msg, s')
         | (Inr u, s') \<Rightarrow> insert_documents e now proxy_ip proxy_port ps s')"

text \<open>The \<^verbatim>\<open>try\<close> block of \<^verbatim>\<open>save_to_mongodb\<close>; \<open>Inl\<close> is the exception it raises.\<close>

definition save_to_mongodb_try ::
  "env \<Rightarrow> topic list \<Rightarrow> string \<Rightarrow> string \<Rightarrow> string \<Rightarrow> app \<Rightarrow> (string + unit) \<times> app"
where
  "save_to_mongodb_try e data ip_address proxy_ip proxy_port s =
     (case MongoClient e s of
        (Inl msg, s1) \<Rightarrow> (Inl msg, s1)
      | (Inr u, s1) \<Rightarrow>
          (case datetime_now e s1 of (now, s2) \<Rightarrow>
             (case insert_documents e now proxy_ip proxy_port (enumerate 1 (take 5 data)) s2 of
                (Inl msg, s3) \<Rightarrow> (Inl msg, s3)
              | (Inr u, s3) \<Rightarrow>
                  (Inr (), st (St_success ''Results successfully saved to MongoDB!'') s3))))"

text \<open>\<^verbatim>\<open>save_to_mongodb\<close>: the handler \<^verbatim>\<open>except Exception\<close> turns every exception of the
  block into an error banner, so the function has no exceptional result.\<close>

definition save_to_mongodb :: "env \<Rightarrow> topic list \<Rightarrow> string \<Rightarrow> string \<Rightarrow> string \<Rightarrow> app \<Rightarrow> app" where
  "save_to_mongodb e data ip_address proxy_ip proxy_port s =
     (case save_to_mongodb_try e data ip_address proxy_ip proxy_port s of
        (Inl msg, s') \<Rightarrow> st (St_error (''Error saving to MongoDB: '' @ msg)) s'
      | (Inr u, s') \<Rightarrow> s')"

text \<open>
  The body of \<^verbatim>\<open>if st.button("Scrape and Save")\<close>. Each of the two text inputs is a
  string, or \<^verbatim>\<open>None\<close> while its default (\<^verbatim>\<open>PROXY\<close>, \<^verbatim>\<open>PORT\<close>) is unset and nothing has
  been typed. The loop that prepares the table evaluates \<^verbatim>\<open>proxy_ip+":"+proxy_port\<close> for
  its first record, after the entries \<^verbatim>\<open>ID\<close>, \<^verbatim>\<open>NAME\<close> and \<^verbatim>\<open>DATE\<close>, which raise
  nothing and change nothing. The list is not empty there, so a \<^verbatim>\<open>None\<close> raises
  \<^verbatim>\<open>TypeError\<close> once the clock has been read, before anything is shown and before
  \<^verbatim>\<open>save_to_mongodb\<close> is called; nothing in the script catches it, and \<open>Inl\<close> is that
  exception. With two strings the loop raises nothing, and \<^verbatim>\<open>save_to_mongodb\<close>, whose only
  caller this is, receives strings.
\<close>

definition scrape_and_save ::
  "env \<Rightarrow> string option \<Rightarrow> string option \<Rightarrow> app \<Rightarrow> (exn + unit) \<times> app"
where
  "scrape_and_save e proxy_ip proxy_port s =
     (case fetch_latest_topics e proxy_ip proxy_port s of (topics, s1) \<Rightarrow>
        if topics \<noteq> [] then
          (let top_5_topics = take 5 topics
           in case datetime_now e s1 of (now, s2) \<Rightarrow>
             (case (proxy_ip, proxy_port) of
                (Some ip, Some port) \<Rightarrow>
                  (let data_for_display = map (make_row now ip port) (enumerate 1 top_5_topics);
                       s3 = st (St_write ''Here are the latest trending topics (Top 5):'') s2;
                       s4 = st (St_dataframe data_for_display) s3
                   in (Inr (), save_to_mongodb e top_5_topics ''N/A'' ip port s4))
              | (Some ip, None) \<Rightarrow> (Inl TypeError, s2)
              | (None, port) \<Rightarrow> (Inl TypeError, s2)))
        else (Inr (), st (St_warning ''No topics found.'') s1))"

subsection \<open>Concrete collaborators\<close>

definition app0 :: app where
  "app0 = \<lparr>ui = [], now_calls = 0, clients = 0, inserts = 0, topics_collection = []\<rparr>"

definition topic_named :: "string \<Rightarrow> topic" where
  "topic_named name = [''name'' \<mapsto> name]"

definition topic_without_name :: topic where
  "topic_without_name = [''volume'' \<mapsto> ''12K'']"

definition before_the_minute :: datetime where
  "before_the_minute =
     \<lparr>year = 2024, month = 5, day = 17, hour = 9, minute = 30, second = 59, microsecond = 900000\<rparr>"

definition after_the_minute :: datetime where
  "after_the_minute =
     \<lparr>year = 2024, month = 5, day = 17, hour = 9, minute = 31, second = 0, microsecond = 100\<rparr>"

definition clock_across_the_minute :: "nat \<Rightarrow> datetime" where
  "clock_across_the_minute k = (if k = 0 then before_the_minute else after_the_minute)"

definition never_raises :: "nat \<Rightarrow> string option" where
  "never_raises k = None"

definition first_raises :: "nat \<Rightarrow> string option" where
  "first_raises k = (if k = 0 then Some ''connection refused'' else None)"

definition second_raises :: "nat \<Rightarrow> string option" where
  "second_raises k = (if k = 1 then Some ''connection closed'' else None)"

definition seven_topics :: "topic list" where
  "seven_topics =
     [topic_named ''A'', topic_named ''B'', topic_named ''C'', topic_named ''D'',
      topic_named ''E'', topic_named ''F'', topic_named ''G'']"

definition three_topics :: "topic list" where
  "three_topics = [topic_named ''X'', topic_without_name, topic_named ''Z'']"

definition env_seven :: env where
  "env_seven =
     \<lparr>actor_call = (\<lambda>proxy_ip proxy_port. Inr seven_topics),
      clock = clock_across_the_minute,
      mongo_client_raises = never_raises,
      insert_one_raises = never_raises\<rparr>"

definition env_three :: env where
  "env_three =
     \<lparr>actor_call = (\<lambda>proxy_ip proxy_port. Inr three_topics),
      clock = clock_across_the_minute,
      mongo_client_raises = never_raises,
      insert_one_raises = never_raises\<rparr>"

definition env_empty :: env where
  "env_empty =
     \<lparr>actor_call = (\<lambda>proxy_ip proxy_port. Inr []),
      clock = clock_across_the_minute,
      mongo_client_raises = never_raises,
      insert_one_raises = never_raises\<rparr>"

definition env_database_down :: env where
  "env_database_down =
     \<lparr>actor_call = (\<lambda>proxy_ip proxy_port. Inr [topic_named ''A'']),
      clock = clock_across_the_minute,
      mongo_client_raises = never_raises,
      insert_one_raises = first_raises\<rparr>"

definition env_second_insert_fails :: env where
  "env_second_insert_fails =
     \<lparr>actor_call = (\<lambda>proxy_ip proxy_port. Inr three_topics),
      clock = clock_across_the_minute,
      mongo_client_raises = never_raises,
      insert_one_raises = second_raises\<rparr>"

section \<open>Properties of the fetcher\<close>

subsection \<open>One attempt\<close>

lemma try_get_Raise:
  "net url proxies (gets w) = Raise e \<Longrightarrow> try_get net url proxies w = (Raise e, w\<lparr>gets := gets w + 1\<rparr>)"
  by (simp add: try_get_def requests_get_def)

lemma try_get_Raise_other:
  "net url proxies (gets w) = Raise_other ex \<Longrightarrow>
   try_get net url proxies w = (Raise_other ex, w\<lparr>gets := gets w + 1\<rparr>)"
  by (simp add: try_get_def requests_get_def)

lemma try_get_bad_status:
  "net url proxies (gets w) = Response r \<Longrightarrow> 400 \<le> status_code r \<and> status_code r < 600 \<Longrightarrow>
   try_get net url proxies w = (Raise HTTPError, w\<lparr>gets := gets w + 1\<rparr>)"
  by (simp add: try_get_def requests_get_def raise_for_status_def)

lemma try_get_good_status:
  "net url proxies (gets w) = Response r \<Longrightarrow> \<not> (400 \<le> status_code r \<and> status_code r < 600) \<Longrightarrow>
   try_get net url proxies w = (Response r, w\<lparr>gets := gets w + 1\<rparr>)"
  by (simp add: try_get_def requests_get_def raise_for_status_def)

lemma sleep_completes_iff: "fst (sleep secs w) = Inr () \<longleftrightarrow> sleep_completes w (length (slept w)) secs"
  by (auto simp: sleep_def sleep_completes_def)


text \<open>One attempt, case by case.\<close>

lemma fetch_success:
  assumes "succeeds_with net url proxy_ip proxy_port (gets w) r"
  shows "fetch_data_with_retry net url proxy_ip proxy_port retries delay w =
           (Inr (Some r), w\<lparr>gets := gets w + 1\<rparr>)"
  using assms
  by (subst fetch_data_with_retry.simps) (simp add: succeeds_with_def try_get_good_status)

lemma fetch_not_retryable:
  assumes "net url (proxies_of proxy_ip proxy_port) (gets w) = Raise e" and "\<not> retryable e"
  shows "fetch_data_with_retry net url proxy_ip proxy_port retries delay w =
           (Inr None, print (Request_error_occurred e) (w\<lparr>gets := gets w + 1\<rparr>))"
  using assms
  by (subst fetch_data_with_retry.simps) (simp add: try_get_Raise retryable_def)

lemma fetch_bad_status:
  assumes "net url (proxies_of proxy_ip proxy_port) (gets w) = Response r"
    and "400 \<le> status_code r \<and> status_code r < 600"
  shows "fetch_data_with_retry net url proxy_ip proxy_port retries delay w =
           (Inr None, print (Request_error_occurred HTTPError) (w\<lparr>gets := gets w + 1\<rparr>))"
  using assms
  by (subst fetch_data_with_retry.simps) (simp add: try_get_bad_status)

lemma fetch_lets_out:
  assumes "net url (proxies_of proxy_ip proxy_port) (gets w) = Raise_other ex"
  shows "fetch_data_with_retry net url proxy_ip proxy_port retries delay w =
           (Inl ex, w\<lparr>gets := gets w + 1\<rparr>)"
  using assms
  by (subst fetch_data_with_retry.simps) (simp add: try_get_Raise_other)

lemma fetch_exhausted:
  assumes "fails_retryably net url proxy_ip proxy_port (gets w)" and "retries \<le> 0"
  shows "\<exists>w'. fetch_data_with_retry net url proxy_ip proxy_port retries delay w = (Inr None, w') \<and>
              gets w' = gets w + 1 \<and> slept w' = slept w"
  using assms
  by (subst fetch_data_with_retry.simps)
     (auto simp: fails_retryably_def try_get_Raise retryable_def print_def Let_def
           split: get_outcome.splits)

lemma fetch_retry:
  assumes "fails_retryably net url proxy_ip proxy_port (gets w)" and "0 < retries"
    and "sleep_completes w (length (slept w)) delay"
  shows "\<exists>w'. fetch_data_with_retry net url proxy_ip proxy_port retries delay w =
                fetch_data_with_retry net url proxy_ip proxy_port (retries - 1) delay w' \<and>
              gets w' = gets w + 1 \<and> slept w' = slept w @ [delay] \<and>
              sleep_rejected w' = sleep_rejected w"
  using assms
  by (subst fetch_data_with_retry.simps)
     (auto simp: fails_retryably_def try_get_Raise retryable_def print_def sleep_def
           sleep_completes_def Let_def
           split: get_outcome.splits)

lemma fetch_sleep_raises:
  assumes "fails_retryably net url proxy_ip proxy_port (gets w)" and "0 < retries"
    and "\<not> sleep_completes w (length (slept w)) delay"
  shows "\<exists>ex w'. fetch_data_with_retry net url proxy_ip proxy_port retries delay w = (Inl ex, w') \<and>
              gets w' = gets w + 1 \<and> slept w' = slept w"
  using assms
  by (subst fetch_data_with_retry.simps)
     (auto simp: fails_retryably_def try_get_Raise retryable_def print_def sleep_def
           sleep_completes_def Let_def
           split: get_outcome.splits)


lemma fetch_terminal:
  assumes "\<not> (fails_retryably net url proxy_ip proxy_port (gets w) \<and> 0 < retries)"
  shows "\<exists>w'. gets w' = gets w + 1 \<and> slept w' = slept w \<and>
     (fetch_data_with_retry net url proxy_ip proxy_port retries delay w = (Inr None, w') \<or>
      (\<exists>r. fetch_data_with_retry net url proxy_ip proxy_port retries delay w = (Inr (Some r), w') \<and>
         succeeds_with net url proxy_ip proxy_port (gets w) r) \<or>
      (\<exists>ex. fetch_data_with_retry net url proxy_ip proxy_port retries delay w = (Inl ex, w') \<and>
         lets_out net url proxy_ip proxy_port (gets w)))"
proof (cases "net url (proxies_of proxy_ip proxy_port) (gets w)")
  case (Response r)
  show ?thesis
  proof (cases "400 \<le> status_code r \<and> status_code r < 600")
    case True
    from fetch_bad_status [where net = net and w = w, OF Response True] show ?thesis
      by (simp add: print_def)
  next
    case False
    with Response have ok: "succeeds_with net url proxy_ip proxy_port (gets w) r"
      by (simp add: succeeds_with_def)
    from fetch_success [OF ok] ok show ?thesis
      by simp
  qed
next
  case (Raise e)
  show ?thesis
  proof (cases "retryable e")
    case True
    with Raise have f: "fails_retryably net url proxy_ip proxy_port (gets w)"
      by (simp add: fails_retryably_def)
    with assms have "retries \<le> 0" by simp
    from fetch_exhausted [OF f this] show ?thesis
      by blast
  next
    case False
    from fetch_not_retryable [where net = net and w = w, OF Raise False] show ?thesis
      by (simp add: print_def)
  qed
next
  case (Raise_other ex)
  then have "lets_out net url proxy_ip proxy_port (gets w)"
    by (simp add: lets_out_def)
  with fetch_lets_out [where net = net and w = w, OF Raise_other] show ?thesis
    by simp
qed


text \<open>The bound on the attempts holds whatever the GETs and the sleeps do: an exception
  ends the run.\<close>

lemma fetch_gets_bound:
  "gets w < gets (snd (fetch_data_with_retry net url proxy_ip proxy_port retries delay w)) \<and>
   gets (snd (fetch_data_with_retry net url proxy_ip proxy_port retries delay w)) \<le> gets w + nat retries + 1"
proof (induction "nat retries" arbitrary: retries w)
  case 0
  then have "\<not> (fails_retryably net url proxy_ip proxy_port (gets w) \<and> 0 < retries)"
    by simp
  from fetch_terminal [OF this, of delay] obtain w' where
    "gets w' = gets w + 1"
    "snd (fetch_data_with_retry net url proxy_ip proxy_port retries delay w) = w'"
    by force
  then show ?case by simp
next
  case (Suc m)
  then have pos: "0 < retries" and m: "m = nat (retries - 1)"
    by auto
  show ?case
  proof (cases "fails_retryably net url proxy_ip proxy_port (gets w)")
    case False
    then have "\<not> (fails_retryably net url proxy_ip proxy_port (gets w) \<and> 0 < retries)"
      by simp
    from fetch_terminal [OF this, of delay] obtain w' where
      "gets w' = gets w + 1"
      "snd (fetch_data_with_retry net url proxy_ip proxy_port retries delay w) = w'"
      by force
    then show ?thesis by simp
  next
    case True
    show ?thesis
    proof (cases "sleep_completes w (length (slept w)) delay")
      case False
      from fetch_sleep_raises [OF True pos False] obtain ex w' where
        "fetch_data_with_retry net url proxy_ip proxy_port retries delay w = (Inl ex, w')"
        "gets w' = gets w + 1"
        by blast
      then show ?thesis by simp
    next
      case sleep: True
      from fetch_retry [OF True pos sleep] obtain w1 where
        w1: "fetch_data_with_retry net url proxy_ip proxy_port retries delay w =
             fetch_data_with_retry net url proxy_ip proxy_port (retries - 1) delay w1"
          "gets w1 = gets w + 1"
        by blast
      from pos have "nat retries = Suc (nat (retries - 1))" by simp
      with Suc.hyps(1) [OF m, of w1] w1(2) show ?thesis
        unfolding w1(1) by simp
    qed
  qed
qed

subsection \<open>What leaves the function\<close>

text \<open>Three runs in which an exception reaches the caller although the delay is not
  negative: a length that does not fit 64 bits of nanoseconds, a GET that lets out an
  exception of urllib3, and a third GET that meets the recursion limit.\<close>

lemma overflowing_delay_example:
  "fetch_data_with_retry always_refused ''https://example.com/trends'' ''10.0.0.1'' ''8080'' 2 9223372037 world0 =
     (Inl OverflowError,
      \<lparr>gets = 1, slept = [],
       stdout = [Connection_error_occurred ConnectionError, Retrying_in_seconds 9223372037],
       sleep_rejected = refuses_no_sleep\<rparr>)"
  by (simp add: fetch_data_with_retry.simps always_refused_def
        world0_def try_get_def requests_get_def sleep_def print_def)

lemma unparsable_proxy_example:
  "fetch_data_with_retry unparsable_proxy ''https://example.com/trends'' ''10.0.0.1'' ''8080'' 3 5 world0 =
     (Inl LocationParseError,
      \<lparr>gets = 1, slept = [], stdout = [], sleep_rejected = refuses_no_sleep\<rparr>)"
  by (simp add: fetch_data_with_retry.simps unparsable_proxy_def
        world0_def try_get_def requests_get_def)

lemma recursion_limit_example:
  "fetch_data_with_retry stack_runs_out ''https://example.com/trends'' ''10.0.0.1'' ''8080'' 3 5 world0 =
     (Inl RecursionError,
      \<lparr>gets = 3, slept = [5, 5],
       stdout = [Connection_error_occurred ConnectionError, Retrying_in_seconds 5,
                 Connection_error_occurred ConnectionError, Retrying_in_seconds 5],
       sleep_rejected = refuses_no_sleep\<rparr>)"
  by (simp add: fetch_data_with_retry.simps stack_runs_out_def
        world0_def try_get_def requests_get_def sleep_def print_def refuses_no_sleep_def)

subsection \<open>The retry properties\<close>














text \<open>\<open>fetch_data_with_retry_rel\<close> is the call relation of the function: it relates the
  arguments of a recursive call to the arguments of the call that makes it.\<close>

lemma fetch_rel_budget:
  assumes "fetch_data_with_retry_rel a' a"
  shows "0 < fst (snd (snd (snd (snd a)))) \<and>
         fst (snd (snd (snd (snd a')))) = fst (snd (snd (snd (snd a)))) - 1"
  using assms by (rule fetch_data_with_retry_rel.cases) simp_all

text \<open>
  C7. Every recursive call is made with a strictly positive budget and passes on exactly
  that budget minus one; the call relation is well-founded, so the recursion terminates on
  every input; a call whose budget is not positive issues one GET and never retries; a call
  with budget \<open>n \<ge> 0\<close> issues at most \<open>n + 1\<close> GET requests.
\<close>

theorem retry_budget_decreases_and_recursion_terminates:
  "(fetch_data_with_retry_rel
      (net', url', proxy_ip', proxy_port', retries', delay', w')
      (net, url, proxy_ip, proxy_port, retries, delay, w) \<longrightarrow>
        0 < retries \<and> retries' = retries - 1) \<and>
   wfP fetch_data_with_retry_rel \<and>
   (retries \<le> 0 \<longrightarrow>
      gets (snd (fetch_data_with_retry net url proxy_ip proxy_port retries delay w)) = gets w + 1) \<and>
   (0 \<le> retries \<longrightarrow>
      gets (snd (fetch_data_with_retry net url proxy_ip proxy_port retries delay w))
        \<le> gets w + nat retries + 1)"
proof (intro conjI impI)
  assume "fetch_data_with_retry_rel
      (net', url', proxy_ip', proxy_port', retries', delay', w')
      (net, url, proxy_ip, proxy_port, retries, delay, w)"
  from fetch_rel_budget [OF this] show "0 < retries" and "retries' = retries - 1"
    by simp_all
next
  show "wfP fetch_data_with_retry_rel"
  proof (rule wfp_if_convertible_to_nat)
    fix a' a
    assume "fetch_data_with_retry_rel a' a"
    from fetch_rel_budget [OF this]
    show "nat (fst (snd (snd (snd (snd a'))))) < nat (fst (snd (snd (snd (snd a)))))"
      by simp
  qed
next
  assume "retries \<le> 0"
  with fetch_gets_bound [of w net url proxy_ip proxy_port retries delay]
  show "gets (snd (fetch_data_with_retry net url proxy_ip proxy_port retries delay w)) = gets w + 1"
    by simp
next
  from fetch_gets_bound [of w net url proxy_ip proxy_port retries delay]
  show "gets (snd (fetch_data_with_retry net url proxy_ip proxy_port retries delay w))
        \<le> gets w + nat retries + 1"
    by simp
qed


theorem retry_budget_decreases_and_recursion_terminates_witness:
  "fetch_data_with_retry_rel
     (always_refused, ''https://example.com/trends'', ''10.0.0.1'', ''8080'', 0, 5,
      \<lparr>gets = 1, slept = [5],
       stdout = [Connection_error_occurred ConnectionError, Retrying_in_seconds 5],
       sleep_rejected = refuses_no_sleep\<rparr>)
     (always_refused, ''https://example.com/trends'', ''10.0.0.1'', ''8080'', 1, 5, world0) \<and>
   wfP fetch_data_with_retry_rel \<and>
   gets (snd (fetch_data_with_retry always_refused ''https://example.com/trends'' ''10.0.0.1'' ''8080'' 0 5 world0)) = 1 \<and>
   gets (snd (fetch_data_with_retry always_refused ''https://example.com/trends'' ''10.0.0.1'' ''8080'' 1 5 world0)) \<le> 2"
proof -
  have rel: "fetch_data_with_retry_rel
     (always_refused, ''https://example.com/trends'', ''10.0.0.1'', ''8080'', 1 - 1, 5,
      \<lparr>gets = 1, slept = [5],
       stdout = [Connection_error_occurred ConnectionError, Retrying_in_seconds 5],
       sleep_rejected = refuses_no_sleep\<rparr>)
     (always_refused, ''https://example.com/trends'', ''10.0.0.1'', ''8080'', 1, 5, world0)"
    by (rule fetch_data_with_retry_rel.intros(1)
          [where ?x2.0 = ConnectionError and b = "()" and xc = "Inr ()" and xa = "Raise ConnectionError"
             and x = "proxies_of ''10.0.0.1'' ''8080''"
             and y = "\<lparr>gets = 1, slept = [], stdout = [], sleep_rejected = refuses_no_sleep\<rparr>"
             and xb = "\<lparr>gets = 1, slept = [], stdout = [Connection_error_occurred ConnectionError],
               sleep_rejected = refuses_no_sleep\<rparr>"])
       (simp_all add: always_refused_def world0_def try_get_def requests_get_def sleep_def print_def
          refuses_no_sleep_def)
  note t0 = retry_budget_decreases_and_recursion_terminates
    [where net = always_refused and url = "''https://example.com/trends''"
       and proxy_ip = "''10.0.0.1''" and proxy_port = "''8080''" and retries = 0 and delay = 5
       and net' = always_refused and url' = "''https://example.com/trends''"
       and proxy_ip' = "''10.0.0.1''" and proxy_port' = "''8080''" and retries' = 0 and delay' = 5
       and w' = "\<lparr>gets = 1, slept = [5],
         stdout = [Connection_error_occurred ConnectionError, Retrying_in_seconds 5],
       sleep_rejected = refuses_no_sleep\<rparr>"
       and w = world0]
  note t1 = retry_budget_decreases_and_recursion_terminates
    [where net = always_refused and url = "''https://example.com/trends''"
       and proxy_ip = "''10.0.0.1''" and proxy_port = "''8080''" and retries = 1 and delay = 5
       and net' = always_refused and url' = "''https://example.com/trends''"
       and proxy_ip' = "''10.0.0.1''" and proxy_port' = "''8080''" and retries' = 0 and delay' = 5
       and w' = "\<lparr>gets = 1, slept = [5],
         stdout = [Connection_error_occurred ConnectionError, Retrying_in_seconds 5],
       sleep_rejected = refuses_no_sleep\<rparr>"
       and w = world0]
  from t0 have a: "gets (snd (fetch_data_with_retry always_refused ''https://example.com/trends'' ''10.0.0.1'' ''8080'' 0 5 world0)) = 1"
    by (simp add: world0_def)
  from t1 have b: "gets (snd (fetch_data_with_retry always_refused ''https://example.com/trends'' ''10.0.0.1'' ''8080'' 1 5 world0)) \<le> 2"
    by (simp add: world0_def)
  from t1 have c: "wfP fetch_data_with_retry_rel" by simp
  from rel a b c show ?thesis by simp
qed

section \<open>Properties of the pipeline\<close>

subsection \<open>The insert loop and save_to_mongodb\<close>

lemma insert_documents_all_ok:
  "(\<forall>k<length ps. insert_one_raises e (inserts s + k) = None) \<Longrightarrow>
   insert_documents e now proxy_ip proxy_port ps s =
     (Inr (), s\<lparr>inserts := inserts s + length ps,
               topics_collection := topics_collection s @ map (make_document now proxy_ip proxy_port) ps\<rparr>)"
proof (induction ps arbitrary: s)
  case Nil
  then show ?case by simp
next
  case (Cons p ps)
  from Cons.prems have first: "insert_one_raises e (inserts s) = None"
    by (metis add.right_neutral length_greater_0_conv list.distinct(1))
  let ?s1 = "s\<lparr>inserts := inserts s + 1,
               topics_collection := topics_collection s @ [make_document now proxy_ip proxy_port p]\<rparr>"
  have rest: "\<forall>k<length ps. insert_one_raises e (inserts ?s1 + k) = None"
    using Cons.prems by (auto simp: less_Suc_eq_0_disj)
  from Cons.IH [OF rest] first show ?case
    by (simp add: insert_one_def)
qed

lemma insert_documents_fails_at:
  "j < length ps \<Longrightarrow> (\<forall>k<j. insert_one_raises e (inserts s + k) = None) \<Longrightarrow>
   insert_one_raises e (inserts s + j) = Some msg \<Longrightarrow>
   insert_documents e now proxy_ip proxy_port ps s =
     (Inl msg, s\<lparr>inserts := inserts s + j + 1,
                topics_collection := topics_collection s @ map (make_document now proxy_ip proxy_port) (take j ps)\<rparr>)"
proof (induction ps arbitrary: s j)
  case Nil
  then show ?case by simp
next
  case (Cons p ps)
  show ?case
  proof (cases j)
    case 0
    with Cons.prems show ?thesis by (simp add: insert_one_def)
  next
    case (Suc i)
    let ?s1 = "s\<lparr>inserts := inserts s + 1,
               topics_collection := topics_collection s @ [make_document now proxy_ip proxy_port p]\<rparr>"
    from Cons.prems Suc have first: "insert_one_raises e (inserts s) = None"
      by (metis add.right_neutral zero_less_Suc)
    have i: "i < length ps" using Cons.prems(1) Suc by simp
    have rest: "\<forall>k<i. insert_one_raises e (inserts ?s1 + k) = None"
      using Cons.prems(2) Suc by (auto simp: less_Suc_eq_0_disj)
    have last: "insert_one_raises e (inserts ?s1 + i) = Some msg"
      using Cons.prems(3) Suc by simp
    from Cons.IH [OF i rest last] first Suc show ?thesis
      by (simp add: insert_one_def)
  qed
qed

lemma save_to_mongodb_try_ok:
  assumes "mongo_client_raises e (clients s) = None"
    and "\<forall>k<min (length data) 5. insert_one_raises e (inserts s + k) = None"
  shows "save_to_mongodb_try e data ip_address proxy_ip proxy_port s =
     (Inr (),
      s\<lparr>ui := ui s @ [St_success ''Results successfully saved to MongoDB!''],
        now_calls := now_calls s + 1,
        clients := clients s + 1,
        inserts := inserts s + min (length data) 5,
        topics_collection := topics_collection s @
          map (make_document (clock e (now_calls s)) proxy_ip proxy_port) (enumerate 1 (take 5 data))\<rparr>)"
proof -
  let ?s2 = "s\<lparr>clients := clients s + 1, now_calls := now_calls s + 1\<rparr>"
  have "\<forall>k<length (enumerate 1 (take 5 data)). insert_one_raises e (inserts ?s2 + k) = None"
    using assms(2) by (simp add: min.commute)
  from insert_documents_all_ok [OF this, of "clock e (now_calls s)" proxy_ip proxy_port] assms(1)
  show ?thesis
    by (simp add: save_to_mongodb_try_def MongoClient_def datetime_now_def st_def min.commute)
qed

lemma save_to_mongodb_try_insert_fails:
  assumes "mongo_client_raises e (clients s) = None"
    and "j < min (length data) 5"
    and "\<forall>k<j. insert_one_raises e (inserts s + k) = None"
    and "insert_one_raises e (inserts s + j) = Some msg"
  shows "save_to_mongodb_try e data ip_address proxy_ip proxy_port s =
     (Inl msg,
      s\<lparr>now_calls := now_calls s + 1,
        clients := clients s + 1,
        inserts := inserts s + j + 1,
        topics_collection := topics_collection s @
          map (make_document (clock e (now_calls s)) proxy_ip proxy_port)
            (take j (enumerate 1 (take 5 data)))\<rparr>)"
proof -
  let ?s2 = "s\<lparr>clients := clients s + 1, now_calls := now_calls s + 1\<rparr>"
  have j: "j < length (enumerate 1 (take 5 data))"
    using assms(2) by (simp add: min.commute)
  have ok: "\<forall>k<j. insert_one_raises e (inserts ?s2 + k) = None"
    using assms(3) by simp
  have bad: "insert_one_raises e (inserts ?s2 + j) = Some msg"
    using assms(4) by simp
  from insert_documents_fails_at [OF j ok bad, of "clock e (now_calls s)" proxy_ip proxy_port] assms(1)
  show ?thesis
    by (simp add: save_to_mongodb_try_def MongoClient_def datetime_now_def)
qed

text \<open>Whatever the database does, the loop writes a prefix of the documents it prepares.\<close>

lemma insert_documents_prefix:
  "\<exists>j\<le>length ps.
     topics_collection (snd (insert_documents e now proxy_ip proxy_port ps s)) =
       topics_collection s @ map (make_document now proxy_ip proxy_port) (take j ps)"
proof (cases "\<forall>k<length ps. insert_one_raises e (inserts s + k) = None")
  case True
  from insert_documents_all_ok [OF True, of now proxy_ip proxy_port] show ?thesis
    by (intro exI [of _ "length ps"]) simp
next
  case False
  define j where "j = (LEAST k. k < length ps \<and> insert_one_raises e (inserts s + k) \<noteq> None)"
  from False have ex: "\<exists>k. k < length ps \<and> insert_one_raises e (inserts s + k) \<noteq> None"
    by blast
  from LeastI_ex [OF ex] have j: "j < length ps" "insert_one_raises e (inserts s + j) \<noteq> None"
    unfolding j_def by blast+
  have before: "\<forall>k<j. insert_one_raises e (inserts s + k) = None"
  proof (intro allI impI)
    fix k assume "k < j"
    from not_less_Least [OF this [unfolded j_def]] \<open>k < j\<close> j(1)
    show "insert_one_raises e (inserts s + k) = None" by simp
  qed
  from j(2) obtain msg where "insert_one_raises e (inserts s + j) = Some msg"
    by blast
  from insert_documents_fails_at [OF j(1) before this, of now proxy_ip proxy_port] j(1)
  show ?thesis
    by (intro exI [of _ j]) simp
qed

subsection \<open>Formatting is injective\<close>

lemma digit_inj:
  assumes "a < 10" and "b < 10" and "digit a = digit b"
  shows "a = b"
proof -
  have d: "distinct ''0123456789''" by simp
  have "''0123456789'' ! a = ''0123456789'' ! b"
    using assms by (simp add: digit_def)
  with assms(1,2) show ?thesis
    using nth_eq_iff_index_eq [OF d, of a b] by simp
qed

lemma digit_mod: "digit (n mod 10) = digit n"
  by (simp add: digit_def)

lemma digit_eq_iff: "digit a = digit b \<longleftrightarrow> a mod 10 = b mod 10"
proof
  assume "digit a = digit b"
  then have "digit (a mod 10) = digit (b mod 10)" by (simp add: digit_mod)
  then show "a mod 10 = b mod 10" by (intro digit_inj) simp_all
next
  assume "a mod 10 = b mod 10"
  then show "digit a = digit b" by (simp add: digit_def)
qed

lemma div_mod_10_eq:
  fixes a b :: nat
  assumes "a div 10 = b div 10" and "a mod 10 = b mod 10"
  shows "a = b"
proof -
  have "a = a div 10 * 10 + a mod 10" by simp
  also have "\<dots> = b div 10 * 10 + b mod 10" using assms by simp
  also have "\<dots> = b" by simp
  finally show ?thesis .
qed

lemma two_digits_inj:
  assumes "a < 100" and "b < 100"
  shows "two_digits a = two_digits b \<longleftrightarrow> a = b"
proof
  assume "two_digits a = two_digits b"
  then have hi: "a div 10 mod 10 = b div 10 mod 10" and lo: "a mod 10 = b mod 10"
    by (simp_all add: two_digits_def digit_eq_iff)
  from assms have "a div 10 < 10" "b div 10 < 10" by simp_all
  with hi have "a div 10 = b div 10" by simp
  from this lo show "a = b" by (rule div_mod_10_eq)
qed simp

lemma four_digits_inj:
  assumes "a < 10000" and "b < 10000"
  shows "four_digits a = four_digits b \<longleftrightarrow> a = b"
proof
  assume "four_digits a = four_digits b"
  then have d3: "a div 1000 mod 10 = b div 1000 mod 10"
    and d2: "a div 100 mod 10 = b div 100 mod 10"
    and d1: "a div 10 mod 10 = b div 10 mod 10"
    and d0: "a mod 10 = b mod 10"
    by (simp_all add: four_digits_def digit_eq_iff)
  from assms have "a div 1000 < 10" "b div 1000 < 10" by simp_all
  with d3 have e3: "a div 1000 = b div 1000" by simp
  have "a div 100 div 10 = a div 1000" "b div 100 div 10 = b div 1000"
    by (simp_all add: div_mult2_eq [symmetric])
  with e3 have "a div 100 div 10 = b div 100 div 10" by simp
  from this d2 have e2: "a div 100 = b div 100" by (rule div_mod_10_eq)
  have "a div 10 div 10 = a div 100" "b div 10 div 10 = b div 100"
    by (simp_all add: div_mult2_eq [symmetric])
  with e2 have "a div 10 div 10 = b div 10 div 10" by simp
  from this d1 have "a div 10 = b div 10" by (rule div_mod_10_eq)
  from this d0 show "a = b" by (rule div_mod_10_eq)
qed simp

lemma strftime_compact_inj:
  assumes "valid_datetime a" and "valid_datetime b"
  shows "strftime_compact a = strftime_compact b \<longleftrightarrow> same_second a b"
proof -
  have "strftime_compact a = strftime_compact b \<longleftrightarrow>
        four_digits (year a) = four_digits (year b) \<and> two_digits (month a) = two_digits (month b) \<and>
        two_digits (day a) = two_digits (day b) \<and> two_digits (hour a) = two_digits (hour b) \<and>
        two_digits (minute a) = two_digits (minute b) \<and> two_digits (second a) = two_digits (second b)"
    by (simp add: strftime_compact_def four_digits_def two_digits_def)
  also have "\<dots> \<longleftrightarrow> same_second a b"
    using assms
    by (simp add: valid_datetime_def same_second_def four_digits_inj two_digits_inj)
  finally show ?thesis .
qed

lemma strftime_iso_inj:
  assumes "valid_datetime a" and "valid_datetime b"
  shows "strftime_iso a = strftime_iso b \<longleftrightarrow> same_second a b"
proof -
  have "strftime_iso a = strftime_iso b \<longleftrightarrow>
        four_digits (year a) = four_digits (year b) \<and> two_digits (month a) = two_digits (month b) \<and>
        two_digits (day a) = two_digits (day b) \<and> two_digits (hour a) = two_digits (hour b) \<and>
        two_digits (minute a) = two_digits (minute b) \<and> two_digits (second a) = two_digits (second b)"
    by (simp add: strftime_iso_def four_digits_def two_digits_def)
  also have "\<dots> \<longleftrightarrow> same_second a b"
    using assms
    by (simp add: valid_datetime_def same_second_def four_digits_inj two_digits_inj)
  finally show ?thesis .
qed

lemma str_nat_small: "n < 10 \<Longrightarrow> str_nat n = [digit n]"
  by (simp add: str_nat.simps)

lemma str_nat_small_inj: "a < 10 \<Longrightarrow> b < 10 \<Longrightarrow> str_nat a = str_nat b \<longleftrightarrow> a = b"
  by (auto simp: str_nat_small dest: digit_inj)

subsection \<open>The handler\<close>

lemma save_to_mongodb_ok:
  assumes "mongo_client_raises e (clients s) = None"
    and "\<forall>k<min (length data) 5. insert_one_raises e (inserts s + k) = None"
  shows "save_to_mongodb e data ip_address proxy_ip proxy_port s =
      s\<lparr>ui := ui s @ [St_success ''Results successfully saved to MongoDB!''],
        now_calls := now_calls s + 1,
        clients := clients s + 1,
        inserts := inserts s + min (length data) 5,
        topics_collection := topics_collection s @
          map (make_document (clock e (now_calls s)) proxy_ip proxy_port) (enumerate 1 (take 5 data))\<rparr>"
  by (simp add: save_to_mongodb_def save_to_mongodb_try_ok [OF assms])

lemma save_to_mongodb_insert_fails:
  assumes "mongo_client_raises e (clients s) = None"
    and "j < min (length data) 5"
    and "\<forall>k<j. insert_one_raises e (inserts s + k) = None"
    and "insert_one_raises e (inserts s + j) = Some msg"
  shows "save_to_mongodb e data ip_address proxy_ip proxy_port s =
      s\<lparr>ui := ui s @ [St_error (''Error saving to MongoDB: '' @ msg)],
        now_calls := now_calls s + 1,
        clients := clients s + 1,
        inserts := inserts s + j + 1,
        topics_collection := topics_collection s @
          map (make_document (clock e (now_calls s)) proxy_ip proxy_port)
            (take j (enumerate 1 (take 5 data)))\<rparr>"
  by (simp add: save_to_mongodb_def save_to_mongodb_try_insert_fails [OF assms] st_def)

lemma insert_documents_frame:
  "ui (snd (insert_documents e now proxy_ip proxy_port ps s)) = ui s \<and>
   clients (snd (insert_documents e now proxy_ip proxy_port ps s)) = clients s \<and>
   now_calls (snd (insert_documents e now proxy_ip proxy_port ps s)) = now_calls s"
  by (induction ps arbitrary: s) (auto simp: insert_one_def split: option.splits)

text \<open>What one call of \<^verbatim>\<open>save_to_mongodb\<close> does whatever the database answers: one
  client, one banner, and a prefix of the documents of the first five records.\<close>

lemma save_to_mongodb_effects:
  "\<exists>j banner. j \<le> min (length data) 5 \<and>
     topics_collection (save_to_mongodb e data ip_address proxy_ip proxy_port s) =
       topics_collection s @
         map (make_document (clock e (now_calls s)) proxy_ip proxy_port)
           (take j (enumerate 1 (take 5 data))) \<and>
     clients (save_to_mongodb e data ip_address proxy_ip proxy_port s) = clients s + 1 \<and>
     ui (save_to_mongodb e data ip_address proxy_ip proxy_port s) = ui s @ [banner]"
proof (cases "mongo_client_raises e (clients s)")
  case (Some msg)
  then have "save_to_mongodb e data ip_address proxy_ip proxy_port s =
      st (St_error (''Error saving to MongoDB: '' @ msg)) (s\<lparr>clients := clients s + 1\<rparr>)"
    by (simp add: save_to_mongodb_def save_to_mongodb_try_def MongoClient_def)
  then show ?thesis
    by (intro exI [of _ 0] exI [of _ "St_error (''Error saving to MongoDB: '' @ msg)"])
       (simp add: st_def)
next
  case None
  let ?s2 = "s\<lparr>clients := clients s + 1, now_calls := now_calls s + 1\<rparr>"
  let ?ps = "enumerate 1 (take 5 data)"
  let ?loop = "insert_documents e (clock e (now_calls s)) proxy_ip proxy_port ?ps ?s2"
  from insert_documents_prefix [of ?ps e "clock e (now_calls s)" proxy_ip proxy_port ?s2]
  obtain j where j: "j \<le> length ?ps"
    "topics_collection (snd ?loop) = topics_collection ?s2 @
       map (make_document (clock e (now_calls s)) proxy_ip proxy_port) (take j ?ps)"
    by blast
  have frame: "ui (snd ?loop) = ui s" "clients (snd ?loop) = clients s + 1"
    using insert_documents_frame [of e "clock e (now_calls s)" proxy_ip proxy_port ?ps ?s2]
    by simp_all
  obtain r s3 where loop: "?loop = (r, s3)" by (cases ?loop)
  have save: "save_to_mongodb e data ip_address proxy_ip proxy_port s =
      (case r of
         Inl msg \<Rightarrow> st (St_error (''Error saving to MongoDB: '' @ msg)) s3
       | Inr u \<Rightarrow> st (St_success ''Results successfully saved to MongoDB!'') s3)"
    using None loop
    by (simp add: save_to_mongodb_def save_to_mongodb_try_def MongoClient_def datetime_now_def
          split: sum.splits)
  have jle: "j \<le> min (length data) 5" using j(1) by (simp add: min.commute)
  show ?thesis
  proof (cases r)
    case (Inl msg)
    with save j(2) frame loop jle show ?thesis
      by (intro exI [of _ j] exI [of _ "St_error (''Error saving to MongoDB: '' @ msg)"])
         (simp add: st_def)
  next
    case (Inr u)
    with save j(2) frame loop jle show ?thesis
      by (intro exI [of _ j] exI [of _ "St_success ''Results successfully saved to MongoDB!''"])
         (simp add: st_def)
  qed
qed

lemma scrape_and_save_nonempty:
  assumes "actor_call e (Some ip) (Some port) = Inr batch" and "batch \<noteq> []"
  shows "scrape_and_save e (Some ip) (Some port) s =
     (Inr (),
      save_to_mongodb e (take 5 batch) ''N/A'' ip port
        (s\<lparr>now_calls := now_calls s + 1,
           ui := ui s @
             [St_write ''Here are the latest trending topics (Top 5):'',
              St_dataframe (map (make_row (clock e (now_calls s)) ip port)
                (enumerate 1 (take 5 batch)))]\<rparr>))"
  using assms
  by (simp add: scrape_and_save_def fetch_latest_topics_def datetime_now_def st_def Let_def)

lemma scrape_and_save_empty:
  assumes "actor_call e proxy_ip proxy_port = Inr []"
  shows "scrape_and_save e proxy_ip proxy_port s =
     (Inr (), s\<lparr>ui := ui s @ [St_warning ''No topics found.'']\<rparr>)"
  using assms
  by (simp add: scrape_and_save_def fetch_latest_topics_def st_def)

text \<open>With records to show and a text input that is \<^verbatim>\<open>None\<close>, the handler raises
  \<^verbatim>\<open>TypeError\<close>: the clock has been read, nothing is shown, nothing is saved.\<close>

lemma scrape_and_save_without_proxy:
  assumes "actor_call e proxy_ip proxy_port = Inr batch" and "batch \<noteq> []"
    and "proxy_ip = None \<or> proxy_port = None"
  shows "scrape_and_save e proxy_ip proxy_port s = (Inl TypeError, s\<lparr>now_calls := now_calls s + 1\<rparr>)"
  using assms
  by (auto simp: scrape_and_save_def fetch_latest_topics_def datetime_now_def Let_def
        split: option.splits)

subsection \<open>Display and persistence\<close>

lemma nth_documents:
  assumes "i < min (length data) 5"
  shows "map (make_document now proxy_ip proxy_port) (enumerate 1 (take 5 data)) ! i =
     \<lparr>unique_id = strftime_compact now @ ''_'' @ str_nat (i + 1),
      name_of_trend = (case (data ! i) ''name'' of Some name \<Rightarrow> name | None \<Rightarrow> ''Trend '' @ str_nat (i + 1)),
      date_time_of_script_completion = strftime_iso now,
      ip_address_used = proxy_ip @ '':'' @ proxy_port\<rparr>"
  using assms by (simp add: nth_enumerate_eq make_document_def dict_get_def split: option.split)

lemma nth_rows:
  assumes "i < min (length data) 5"
  shows "map (make_row now proxy_ip proxy_port) (enumerate 1 (take 5 data)) ! i =
     \<lparr>ID = strftime_compact now @ ''_'' @ str_nat (i + 1),
      NAME = (case (data ! i) ''name'' of Some name \<Rightarrow> name | None \<Rightarrow> ''Trend '' @ str_nat (i + 1)),
      DATE = strftime_iso now,
      PROXY = proxy_ip @ '':'' @ proxy_port\<rparr>"
  using assms by (simp add: nth_enumerate_eq make_row_def dict_get_def split: option.split)

lemma distinct_unique_ids:
  "distinct (map unique_id (map (make_document now proxy_ip proxy_port) (enumerate 1 (take 5 data))))"
proof -
  let ?docs = "map (make_document now proxy_ip proxy_port) (enumerate 1 (take 5 data))"
  have len: "length ?docs = min (length data) 5" by (simp add: min.commute)
  show ?thesis
  proof (subst distinct_conv_nth, intro allI impI)
    fix i j
    assume i: "i < length (map unique_id ?docs)" and j: "j < length (map unique_id ?docs)"
      and ne: "i \<noteq> j"
    from i j len have i5: "i < min (length data) 5" and j5: "j < min (length data) 5"
      by simp_all
    then have "i + 1 < 10" "j + 1 < 10" by simp_all
    with ne have "str_nat (i + 1) \<noteq> str_nat (j + 1)"
      by (simp add: str_nat_small_inj)
    then have "unique_id (?docs ! i) \<noteq> unique_id (?docs ! j)"
      by (simp only: nth_documents [OF i5] nth_documents [OF j5]) simp
    with i j show "map unique_id ?docs ! i \<noteq> map unique_id ?docs ! j"
      by simp
  qed
qed

text \<open>
  C8. When a call of \<^verbatim>\<open>save_to_mongodb\<close> on \<open>m\<close> records persists its batch (the client
  opens and no insert raises), the documents it appends are \<open>min m 5\<close> in number, the i-th
  of them (counted from 1) has the identifier \<^verbatim>\<open><timestamp>_i\<close> with the timestamp of the
  one clock reading of the call, so the ordinals run from 1 to \<open>min m 5\<close> in insertion
  order and the identifiers are pairwise different; its name is the \<^verbatim>\<open>name\<close> of the i-th
  record, or \<^verbatim>\<open>Trend i\<close> when the record has no such key.
\<close>

theorem documents_of_a_persisted_batch:
  assumes "mongo_client_raises e (clients s) = None"
    and "\<forall>k<min (length data) 5. insert_one_raises e (inserts s + k) = None"
  shows "\<exists>docs.
     topics_collection (save_to_mongodb e data ip_address proxy_ip proxy_port s) =
       topics_collection s @ docs \<and>
     length docs = min (length data) 5 \<and>
     now_calls (save_to_mongodb e data ip_address proxy_ip proxy_port s) = now_calls s + 1 \<and>
     (\<forall>i<min (length data) 5.
        unique_id (docs ! i) = strftime_compact (clock e (now_calls s)) @ ''_'' @ str_nat (i + 1) \<and>
        name_of_trend (docs ! i) =
          (case (data ! i) ''name'' of Some name \<Rightarrow> name | None \<Rightarrow> ''Trend '' @ str_nat (i + 1))) \<and>
     distinct (map unique_id docs)"
proof -
  let ?docs = "map (make_document (clock e (now_calls s)) proxy_ip proxy_port) (enumerate 1 (take 5 data))"
  have "topics_collection (save_to_mongodb e data ip_address proxy_ip proxy_port s) =
       topics_collection s @ ?docs"
    and "now_calls (save_to_mongodb e data ip_address proxy_ip proxy_port s) = now_calls s + 1"
    by (simp_all add: save_to_mongodb_ok [OF assms])
  moreover have "length ?docs = min (length data) 5"
    by (simp add: min.commute)
  moreover have "\<forall>i<min (length data) 5.
        unique_id (?docs ! i) = strftime_compact (clock e (now_calls s)) @ ''_'' @ str_nat (i + 1) \<and>
        name_of_trend (?docs ! i) =
          (case (data ! i) ''name'' of Some name \<Rightarrow> name | None \<Rightarrow> ''Trend '' @ str_nat (i + 1))"
  proof (intro allI impI)
    fix i assume "i < min (length data) 5"
    from nth_documents [OF this, of "clock e (now_calls s)" proxy_ip proxy_port]
    show "unique_id (?docs ! i) = strftime_compact (clock e (now_calls s)) @ ''_'' @ str_nat (i + 1) \<and>
        name_of_trend (?docs ! i) =
          (case (data ! i) ''name'' of Some name \<Rightarrow> name | None \<Rightarrow> ''Trend '' @ str_nat (i + 1))"
      by (simp only: document.simps)
  qed
  moreover have "distinct (map unique_id ?docs)"
    by (rule distinct_unique_ids)
  ultimately show ?thesis by blast
qed

text \<open>
  C9. Persistence is not atomic. If the i-th insert of a call (\<open>1 \<le> i \<le> min m 5\<close>) raises
  after the earlier ones succeeded, the collection has gained exactly the documents with the
  ordinals 1 to \<open>i - 1\<close>, no further insert is issued, the exception of the \<^verbatim>\<open>try\<close>
  block is caught and shown as an error banner, and the function returns normally.
\<close>

theorem failed_insert_keeps_the_earlier_documents:
  assumes "1 \<le> i" and "i \<le> min (length data) 5"
    and "mongo_client_raises e (clients s) = None"
    and "\<forall>k<i - 1. insert_one_raises e (inserts s + k) = None"
    and "insert_one_raises e (inserts s + (i - 1)) = Some msg"
  shows "\<exists>docs.
     topics_collection (save_to_mongodb e data ip_address proxy_ip proxy_port s) =
       topics_collection s @ docs \<and>
     length docs = i - 1 \<and>
     (\<forall>j<i - 1.
        unique_id (docs ! j) = strftime_compact (clock e (now_calls s)) @ ''_'' @ str_nat (j + 1)) \<and>
     inserts (save_to_mongodb e data ip_address proxy_ip proxy_port s) = inserts s + i \<and>
     fst (save_to_mongodb_try e data ip_address proxy_ip proxy_port s) = Inl msg \<and>
     ui (save_to_mongodb e data ip_address proxy_ip proxy_port s) =
       ui s @ [St_error (''Error saving to MongoDB: '' @ msg)]"
proof -
  let ?all = "map (make_document (clock e (now_calls s)) proxy_ip proxy_port) (enumerate 1 (take 5 data))"
  let ?docs = "take (i - 1) ?all"
  from assms(1,2) have lt: "i - 1 < min (length data) 5" by auto
  note save = save_to_mongodb_insert_fails [OF assms(3) lt assms(4,5)]
  note raised = save_to_mongodb_try_insert_fails [OF assms(3) lt assms(4,5)]
  have "topics_collection (save_to_mongodb e data ip_address proxy_ip proxy_port s) =
       topics_collection s @ ?docs"
    by (simp add: save take_map)
  moreover have "length ?docs = i - 1"
    using lt by (simp add: min.commute)
  moreover have "\<forall>j<i - 1.
        unique_id (?docs ! j) = strftime_compact (clock e (now_calls s)) @ ''_'' @ str_nat (j + 1)"
  proof (intro allI impI)
    fix j assume j: "j < i - 1"
    with lt have \<open>j < min (length data) 5\<close> by simp
    have "?docs ! j = ?all ! j" using j by simp
    with nth_documents [OF \<open>j < min (length data) 5\<close>, of "clock e (now_calls s)" proxy_ip proxy_port]
    show "unique_id (?docs ! j) = strftime_compact (clock e (now_calls s)) @ ''_'' @ str_nat (j + 1)"
      by (simp only: document.simps)
  qed
  moreover have "inserts (save_to_mongodb e data ip_address proxy_ip proxy_port s) = inserts s + i"
    using assms(1) by (simp add: save)
  moreover have "fst (save_to_mongodb_try e data ip_address proxy_ip proxy_port s) = Inl msg"
    by (simp add: raised)
  moreover have "ui (save_to_mongodb e data ip_address proxy_ip proxy_port s) =
       ui s @ [St_error (''Error saving to MongoDB: '' @ msg)]"
    by (simp add: save)
  ultimately show ?thesis by blast
qed

theorem documents_of_a_persisted_batch_witness:
  "\<exists>docs.
     topics_collection (save_to_mongodb env_three three_topics ''N/A'' ''10.0.0.1'' ''8080'' app0) = docs \<and>
     length docs = 3 \<and>
     unique_id (docs ! 0) = ''20240517093059_1'' \<and> name_of_trend (docs ! 0) = ''X'' \<and>
     unique_id (docs ! 1) = ''20240517093059_2'' \<and> name_of_trend (docs ! 1) = ''Trend 2'' \<and>
     unique_id (docs ! 2) = ''20240517093059_3'' \<and> name_of_trend (docs ! 2) = ''Z''"
proof -
  have ok: "mongo_client_raises env_three (clients app0) = None"
    "\<forall>k<min (length three_topics) 5. insert_one_raises env_three (inserts app0 + k) = None"
    by (simp_all add: env_three_def never_raises_def)
  from documents_of_a_persisted_batch [OF ok, of "''N/A''" "''10.0.0.1''" "''8080''"]
  obtain docs where
    docs: "topics_collection (save_to_mongodb env_three three_topics ''N/A'' ''10.0.0.1'' ''8080'' app0) =
       topics_collection app0 @ docs"
      "length docs = min (length three_topics) 5"
      "\<forall>i<min (length three_topics) 5.
        unique_id (docs ! i) = strftime_compact (clock env_three (now_calls app0)) @ ''_'' @ str_nat (i + 1) \<and>
        name_of_trend (docs ! i) =
          (case (three_topics ! i) ''name'' of Some name \<Rightarrow> name | None \<Rightarrow> ''Trend '' @ str_nat (i + 1))"
    by blast
  have len: "min (length three_topics) 5 = 3"
    by (simp add: three_topics_def)
  have stamp: "strftime_compact (clock env_three (now_calls app0)) = ''20240517093059''"
    by (simp add: env_three_def app0_def clock_across_the_minute_def before_the_minute_def
          strftime_compact_def four_digits_def two_digits_def digit_def)
  have ords: "str_nat (Suc 0) = ''1''" "str_nat (Suc (Suc 0)) = ''2''" "str_nat 3 = ''3''"
    by (simp_all add: str_nat.simps digit_def)
  have names: "(three_topics ! 0) ''name'' = Some ''X''" "(three_topics ! Suc 0) ''name'' = None"
    "(three_topics ! 2) ''name'' = Some ''Z''"
    by (simp_all add: three_topics_def topic_named_def topic_without_name_def)
  have start: "topics_collection app0 = []"
    by (simp add: app0_def)
  from docs(3) [unfolded len, rule_format, of 0]
  have d0: "unique_id (docs ! 0) = ''20240517093059_1''" "name_of_trend (docs ! 0) = ''X''"
    by (simp_all add: stamp ords names)
  from docs(3) [unfolded len, rule_format, of 1]
  have d1: "unique_id (docs ! 1) = ''20240517093059_2''" "name_of_trend (docs ! 1) = ''Trend 2''"
    by (simp_all add: stamp ords names)
  from docs(3) [unfolded len, rule_format, of 2]
  have d2: "unique_id (docs ! 2) = ''20240517093059_3''" "name_of_trend (docs ! 2) = ''Z''"
    by (simp_all add: stamp ords names)
  from docs(1,2) d0 d1 d2 show ?thesis
    by (simp add: len start)
qed

theorem failed_insert_keeps_the_earlier_documents_witness:
  "\<exists>docs.
     topics_collection (save_to_mongodb env_second_insert_fails three_topics ''N/A'' ''10.0.0.1'' ''8080'' app0) = docs \<and>
     length docs = 1 \<and> unique_id (docs ! 0) = ''20240517093059_1'' \<and>
     inserts (save_to_mongodb env_second_insert_fails three_topics ''N/A'' ''10.0.0.1'' ''8080'' app0) = 2 \<and>
     ui (save_to_mongodb env_second_insert_fails three_topics ''N/A'' ''10.0.0.1'' ''8080'' app0) =
       [St_error ''Error saving to MongoDB: connection closed'']"
proof -
  have i: "(1::nat) \<le> 2" "2 \<le> min (length three_topics) 5"
    by (simp_all add: three_topics_def)
  have db: "mongo_client_raises env_second_insert_fails (clients app0) = None"
    "\<forall>k<2 - 1. insert_one_raises env_second_insert_fails (inserts app0 + k) = None"
    "insert_one_raises env_second_insert_fails (inserts app0 + (2 - 1)) = Some ''connection closed''"
    by (simp_all add: env_second_insert_fails_def never_raises_def second_raises_def app0_def)
  from failed_insert_keeps_the_earlier_documents [OF i db, of "''N/A''" "''10.0.0.1''" "''8080''"]
  obtain docs where
    docs: "topics_collection (save_to_mongodb env_second_insert_fails three_topics ''N/A'' ''10.0.0.1'' ''8080'' app0) =
       topics_collection app0 @ docs"
      "length docs = 2 - 1"
      "\<forall>j<2 - 1. unique_id (docs ! j) =
         strftime_compact (clock env_second_insert_fails (now_calls app0)) @ ''_'' @ str_nat (j + 1)"
      "inserts (save_to_mongodb env_second_insert_fails three_topics ''N/A'' ''10.0.0.1'' ''8080'' app0) =
         inserts app0 + 2"
      "ui (save_to_mongodb env_second_insert_fails three_topics ''N/A'' ''10.0.0.1'' ''8080'' app0) =
         ui app0 @ [St_error (''Error saving to MongoDB: '' @ ''connection closed'')]"
    by blast
  have stamp: "strftime_compact (clock env_second_insert_fails (now_calls app0)) = ''20240517093059''"
    by (simp add: env_second_insert_fails_def app0_def clock_across_the_minute_def before_the_minute_def
          strftime_compact_def four_digits_def two_digits_def digit_def)
  have ords: "str_nat (Suc 0) = ''1''"
    by (simp add: str_nat.simps digit_def)
  have start: "topics_collection app0 = []" "inserts app0 = 0" "ui app0 = []"
    by (simp_all add: app0_def)
  from docs(3) [rule_format, of 0]
  have d0: "unique_id (docs ! 0) = ''20240517093059_1''"
    by (simp add: stamp ords)
  from docs(1,2,4,5) d0 show ?thesis
    by (simp add: start)
qed

text \<open>
  C3, for text inputs that are strings and with persistence made conditional. For every
  batch of \<open>m\<close> records returned by the trend source: when \<open>m > 0\<close> and both proxy fields
  hold strings, the table shows exactly the first \<open>min m 5\<close> records, in order, and
  \<^verbatim>\<open>save_to_mongodb\<close> is called once (one database client) on those records; the
  collection gains a prefix of their \<open>min m 5\<close> documents, and all of them, with the
  success banner, when the client opens and no insert raises. When \<open>m = 0\<close> the warning
  \<^verbatim>\<open>No topics found.\<close> is shown and \<^verbatim>\<open>save_to_mongodb\<close> is not called: no client, no
  insert, the collection unchanged.
\<close>

theorem topics_displayed_and_persisted:
  assumes "actor_call e proxy_ip proxy_port = Inr batch"
  shows
    "(batch \<noteq> [] \<and> proxy_ip = Some ip \<and> proxy_port = Some port \<longrightarrow>
        (\<exists>rows docs j banner.
           fst (scrape_and_save e proxy_ip proxy_port s) = Inr () \<and>
           ui (snd (scrape_and_save e proxy_ip proxy_port s)) =
             ui s @ [St_write ''Here are the latest trending topics (Top 5):'', St_dataframe rows, banner] \<and>
           length rows = min (length batch) 5 \<and>
           (\<forall>i<min (length batch) 5.
              rows ! i =
                \<lparr>ID = strftime_compact (clock e (now_calls s)) @ ''_'' @ str_nat (i + 1),
                 NAME = (case (batch ! i) ''name'' of Some name \<Rightarrow> name | None \<Rightarrow> ''Trend '' @ str_nat (i + 1)),
                 DATE = strftime_iso (clock e (now_calls s)),
                 PROXY = ip @ '':'' @ port\<rparr>) \<and>
           clients (snd (scrape_and_save e proxy_ip proxy_port s)) = clients s + 1 \<and>
           length docs = min (length batch) 5 \<and>
           (\<forall>i<min (length batch) 5.
              docs ! i =
                \<lparr>unique_id = strftime_compact (clock e (now_calls s + 1)) @ ''_'' @ str_nat (i + 1),
                 name_of_trend = (case (batch ! i) ''name'' of Some name \<Rightarrow> name | None \<Rightarrow> ''Trend '' @ str_nat (i + 1)),
                 date_time_of_script_completion = strftime_iso (clock e (now_calls s + 1)),
                 ip_address_used = ip @ '':'' @ port\<rparr>) \<and>
           j \<le> min (length batch) 5 \<and>
           topics_collection (snd (scrape_and_save e proxy_ip proxy_port s)) =
             topics_collection s @ take j docs \<and>
           (mongo_client_raises e (clients s) = None \<and>
            (\<forall>k<min (length batch) 5. insert_one_raises e (inserts s + k) = None) \<longrightarrow>
              j = min (length batch) 5 \<and>
              banner = St_success ''Results successfully saved to MongoDB!''))) \<and>
     (batch = [] \<longrightarrow>
        fst (scrape_and_save e proxy_ip proxy_port s) = Inr () \<and>
        ui (snd (scrape_and_save e proxy_ip proxy_port s)) = ui s @ [St_warning ''No topics found.''] \<and>
        clients (snd (scrape_and_save e proxy_ip proxy_port s)) = clients s \<and>
        inserts (snd (scrape_and_save e proxy_ip proxy_port s)) = inserts s \<and>
        topics_collection (snd (scrape_and_save e proxy_ip proxy_port s)) = topics_collection s)"
proof (intro conjI impI)
  assume some: "batch \<noteq> [] \<and> proxy_ip = Some ip \<and> proxy_port = Some port"
  then have ne: "batch \<noteq> []" and ip: "proxy_ip = Some ip" and port: "proxy_port = Some port"
    by simp_all
  let ?m = "min (length batch) 5"
  let ?t1 = "clock e (now_calls s)" and ?t2 = "clock e (now_calls s + 1)"
  let ?rows = "map (make_row ?t1 ip port) (enumerate 1 (take 5 batch))"
  let ?docs = "map (make_document ?t2 ip port) (enumerate 1 (take 5 batch))"
  let ?s4 = "s\<lparr>now_calls := now_calls s + 1,
      ui := ui s @ [St_write ''Here are the latest trending topics (Top 5):'', St_dataframe ?rows]\<rparr>"
  let ?s' = "save_to_mongodb e (take 5 batch) ''N/A'' ip port ?s4"
  have run: "scrape_and_save e proxy_ip proxy_port s = (Inr (), ?s')"
    unfolding ip port by (rule scrape_and_save_nonempty [OF assms [unfolded ip port] ne])
  have rows_len: "length ?rows = ?m"
    by (simp add: min.commute)
  have rows_nth: "\<forall>i<?m. ?rows ! i =
        \<lparr>ID = strftime_compact ?t1 @ ''_'' @ str_nat (i + 1),
         NAME = (case (batch ! i) ''name'' of Some name \<Rightarrow> name | None \<Rightarrow> ''Trend '' @ str_nat (i + 1)),
         DATE = strftime_iso ?t1,
         PROXY = ip @ '':'' @ port\<rparr>"
    using nth_rows [of _ batch ?t1 ip port] by blast
  have docs_len: "length ?docs = ?m"
    by (simp add: min.commute)
  have docs_nth: "\<forall>i<?m. ?docs ! i =
        \<lparr>unique_id = strftime_compact ?t2 @ ''_'' @ str_nat (i + 1),
         name_of_trend = (case (batch ! i) ''name'' of Some name \<Rightarrow> name | None \<Rightarrow> ''Trend '' @ str_nat (i + 1)),
         date_time_of_script_completion = strftime_iso ?t2,
         ip_address_used = ip @ '':'' @ port\<rparr>"
    using nth_documents [of _ batch ?t2 ip port] by blast
  have "\<exists>j banner.
      ui ?s' = ui s @ [St_write ''Here are the latest trending topics (Top 5):'', St_dataframe ?rows, banner] \<and>
      clients ?s' = clients s + 1 \<and> j \<le> ?m \<and>
      topics_collection ?s' = topics_collection s @ take j ?docs \<and>
      (mongo_client_raises e (clients s) = None \<and>
       (\<forall>k<?m. insert_one_raises e (inserts s + k) = None) \<longrightarrow>
         j = ?m \<and> banner = St_success ''Results successfully saved to MongoDB!'')"
  proof (cases "mongo_client_raises e (clients s) = None \<and>
       (\<forall>k<?m. insert_one_raises e (inserts s + k) = None)")
    case True
    then have a: "mongo_client_raises e (clients ?s4) = None"
      and b: "\<forall>k<min (length (take 5 batch)) 5. insert_one_raises e (inserts ?s4 + k) = None"
      by simp_all
    note saved = save_to_mongodb_ok [OF a b, of "''N/A''" ip port]
    have "ui ?s' = ui s @ [St_write ''Here are the latest trending topics (Top 5):'', St_dataframe ?rows,
        St_success ''Results successfully saved to MongoDB!'']"
      and "clients ?s' = clients s + 1"
      and "topics_collection ?s' = topics_collection s @ take ?m ?docs"
      unfolding saved by (simp_all add: min.commute)
    then show ?thesis by blast
  next
    case False
    from save_to_mongodb_effects [of "take 5 batch" e "''N/A''" ip port ?s4]
    obtain j banner where
      eff: "j \<le> min (length (take 5 batch)) 5"
        "topics_collection ?s' = topics_collection ?s4 @
             map (make_document (clock e (now_calls ?s4)) ip port)
               (take j (enumerate 1 (take 5 (take 5 batch))))"
        "clients ?s' = clients ?s4 + 1"
        "ui ?s' = ui ?s4 @ [banner]"
      by blast
    have "ui ?s' = ui s @ [St_write ''Here are the latest trending topics (Top 5):'', St_dataframe ?rows, banner]"
      using eff(4) by simp
    moreover have "clients ?s' = clients s + 1"
      using eff(3) by simp
    moreover have "j \<le> ?m"
      using eff(1) by simp
    moreover have "topics_collection ?s' = topics_collection s @ take j ?docs"
      using eff(2) by (simp add: take_map)
    ultimately show ?thesis using False by blast
  qed
  then obtain j banner where
    "ui ?s' = ui s @ [St_write ''Here are the latest trending topics (Top 5):'', St_dataframe ?rows, banner]"
    "clients ?s' = clients s + 1" "j \<le> ?m"
    "topics_collection ?s' = topics_collection s @ take j ?docs"
    "mongo_client_raises e (clients s) = None \<and>
       (\<forall>k<?m. insert_one_raises e (inserts s + k) = None) \<longrightarrow>
         j = ?m \<and> banner = St_success ''Results successfully saved to MongoDB!''"
    by blast
  with rows_len rows_nth docs_len docs_nth
  show "\<exists>rows docs j banner.
           fst (scrape_and_save e proxy_ip proxy_port s) = Inr () \<and>
           ui (snd (scrape_and_save e proxy_ip proxy_port s)) =
             ui s @ [St_write ''Here are the latest trending topics (Top 5):'', St_dataframe rows, banner] \<and>
           length rows = min (length batch) 5 \<and>
           (\<forall>i<min (length batch) 5.
              rows ! i =
                \<lparr>ID = strftime_compact (clock e (now_calls s)) @ ''_'' @ str_nat (i + 1),
                 NAME = (case (batch ! i) ''name'' of Some name \<Rightarrow> name | None \<Rightarrow> ''Trend '' @ str_nat (i + 1)),
                 DATE = strftime_iso (clock e (now_calls s)),
                 PROXY = ip @ '':'' @ port\<rparr>) \<and>
           clients (snd (scrape_and_save e proxy_ip proxy_port s)) = clients s + 1 \<and>
           length docs = min (length batch) 5 \<and>
           (\<forall>i<min (length batch) 5.
              docs ! i =
                \<lparr>unique_id = strftime_compact (clock e (now_calls s + 1)) @ ''_'' @ str_nat (i + 1),
                 name_of_trend = (case (batch ! i) ''name'' of Some name \<Rightarrow> name | None \<Rightarrow> ''Trend '' @ str_nat (i + 1)),
                 date_time_of_script_completion = strftime_iso (clock e (now_calls s + 1)),
                 ip_address_used = ip @ '':'' @ port\<rparr>) \<and>
           j \<le> min (length batch) 5 \<and>
           topics_collection (snd (scrape_and_save e proxy_ip proxy_port s)) =
             topics_collection s @ take j docs \<and>
           (mongo_client_raises e (clients s) = None \<and>
            (\<forall>k<min (length batch) 5. insert_one_raises e (inserts s + k) = None) \<longrightarrow>
              j = min (length batch) 5 \<and>
              banner = St_success ''Results successfully saved to MongoDB!'')"
    unfolding run fst_conv snd_conv
    by (intro exI [of _ ?rows] exI [of _ ?docs] exI [of _ j] exI [of _ banner]) blast
next
  assume "batch = []"
  with assms have run: "scrape_and_save e proxy_ip proxy_port s =
      (Inr (), s\<lparr>ui := ui s @ [St_warning ''No topics found.'']\<rparr>)"
    by (simp add: scrape_and_save_empty)
  show "fst (scrape_and_save e proxy_ip proxy_port s) = Inr ()"
    "ui (snd (scrape_and_save e proxy_ip proxy_port s)) = ui s @ [St_warning ''No topics found.'']"
    "clients (snd (scrape_and_save e proxy_ip proxy_port s)) = clients s"
    "inserts (snd (scrape_and_save e proxy_ip proxy_port s)) = inserts s"
    "topics_collection (snd (scrape_and_save e proxy_ip proxy_port s)) = topics_collection s"
    by (simp_all add: run)
qed

theorem topics_displayed_and_persisted_witness:
  "(\<exists>rows docs.
      ui (snd (scrape_and_save env_seven (Some ''10.0.0.1'') (Some ''8080'') app0)) =
        [St_write ''Here are the latest trending topics (Top 5):'', St_dataframe rows,
         St_success ''Results successfully saved to MongoDB!''] \<and>
      length rows = 5 \<and> NAME (rows ! 0) = ''A'' \<and> NAME (rows ! 4) = ''E'' \<and>
      topics_collection (snd (scrape_and_save env_seven (Some ''10.0.0.1'') (Some ''8080'') app0)) = docs \<and>
      length docs = 5 \<and> name_of_trend (docs ! 0) = ''A'' \<and> name_of_trend (docs ! 4) = ''E'') \<and>
   clients (snd (scrape_and_save env_seven (Some ''10.0.0.1'') (Some ''8080'') app0)) = 1 \<and>
   ui (snd (scrape_and_save env_empty None None app0)) = [St_warning ''No topics found.''] \<and>
   clients (snd (scrape_and_save env_empty None None app0)) = 0 \<and>
   topics_collection (snd (scrape_and_save env_empty None None app0)) = []"
proof -
  have seven: "actor_call env_seven (Some ''10.0.0.1'') (Some ''8080'') = Inr seven_topics"
    by (simp add: env_seven_def)
  have none: "actor_call env_empty None None = Inr []"
    by (simp add: env_empty_def)
  have len: "min (length seven_topics) 5 = 5"
    by (simp add: seven_topics_def)
  have given: "seven_topics \<noteq> [] \<and> Some ''10.0.0.1'' = Some ''10.0.0.1'' \<and> Some ''8080'' = Some ''8080''"
    by (simp add: seven_topics_def)
  have db: "mongo_client_raises env_seven (clients app0) = None \<and>
      (\<forall>k<5. insert_one_raises env_seven (inserts app0 + k) = None)"
    by (simp add: env_seven_def never_raises_def)
  have start: "ui app0 = []" "clients app0 = 0" "topics_collection app0 = []"
    by (simp_all add: app0_def)
  have names: "(seven_topics ! 0) ''name'' = Some ''A''" "(seven_topics ! 4) ''name'' = Some ''E''"
    by (simp_all add: seven_topics_def topic_named_def)
  from topics_displayed_and_persisted
    [OF seven, where ip = "''10.0.0.1''" and port = "''8080''" and s = app0, unfolded len]
    given
  obtain rows docs j banner where
    run: "ui (snd (scrape_and_save env_seven (Some ''10.0.0.1'') (Some ''8080'') app0)) =
        ui app0 @ [St_write ''Here are the latest trending topics (Top 5):'', St_dataframe rows, banner]"
      "length rows = 5"
      "clients (snd (scrape_and_save env_seven (Some ''10.0.0.1'') (Some ''8080'') app0)) = clients app0 + 1"
      "length docs = 5"
      "topics_collection (snd (scrape_and_save env_seven (Some ''10.0.0.1'') (Some ''8080'') app0)) =
         topics_collection app0 @ take j docs"
    and rows: "\<forall>i<5. rows ! i =
        \<lparr>ID = strftime_compact (clock env_seven (now_calls app0)) @ ''_'' @ str_nat (i + 1),
         NAME = (case (seven_topics ! i) ''name'' of Some name \<Rightarrow> name | None \<Rightarrow> ''Trend '' @ str_nat (i + 1)),
         DATE = strftime_iso (clock env_seven (now_calls app0)),
         PROXY = ''10.0.0.1'' @ '':'' @ ''8080''\<rparr>"
    and docs: "\<forall>i<5. docs ! i =
        \<lparr>unique_id = strftime_compact (clock env_seven (now_calls app0 + 1)) @ ''_'' @ str_nat (i + 1),
         name_of_trend = (case (seven_topics ! i) ''name'' of Some name \<Rightarrow> name | None \<Rightarrow> ''Trend '' @ str_nat (i + 1)),
         date_time_of_script_completion = strftime_iso (clock env_seven (now_calls app0 + 1)),
         ip_address_used = ''10.0.0.1'' @ '':'' @ ''8080''\<rparr>"
    and saved: "mongo_client_raises env_seven (clients app0) = None \<and>
      (\<forall>k<5. insert_one_raises env_seven (inserts app0 + k) = None) \<longrightarrow>
        j = 5 \<and> banner = St_success ''Results successfully saved to MongoDB!''"
    by blast
  from saved db have j: "j = 5" and banner: "banner = St_success ''Results successfully saved to MongoDB!''"
    by blast+
  have "(0::nat) < 5" "(4::nat) < 5" by simp_all
  note r0 = rows [rule_format, OF this(1)] and r4 = rows [rule_format, OF this(2)]
    and d0 = docs [rule_format, OF this(1)] and d4 = docs [rule_format, OF this(2)]
  have first: "NAME (rows ! 0) = ''A''" "NAME (rows ! 4) = ''E''"
    "name_of_trend (docs ! 0) = ''A''" "name_of_trend (docs ! 4) = ''E''"
    unfolding r0 r4 d0 d4 by (simp_all add: names)
  have a: "\<exists>rows docs.
      ui (snd (scrape_and_save env_seven (Some ''10.0.0.1'') (Some ''8080'') app0)) =
        [St_write ''Here are the latest trending topics (Top 5):'', St_dataframe rows,
         St_success ''Results successfully saved to MongoDB!''] \<and>
      length rows = 5 \<and> NAME (rows ! 0) = ''A'' \<and> NAME (rows ! 4) = ''E'' \<and>
      topics_collection (snd (scrape_and_save env_seven (Some ''10.0.0.1'') (Some ''8080'') app0)) = docs \<and>
      length docs = 5 \<and> name_of_trend (docs ! 0) = ''A'' \<and> name_of_trend (docs ! 4) = ''E''"
    using run first unfolding j banner start
    by (intro exI [of _ rows] exI [of _ docs]) simp
  have b: "clients (snd (scrape_and_save env_seven (Some ''10.0.0.1'') (Some ''8080'') app0)) = 1"
    using run(3) unfolding start by simp
  from topics_displayed_and_persisted [OF none, where s = app0]
  have d: "ui (snd (scrape_and_save env_empty None None app0)) = [St_warning ''No topics found.'']"
    "clients (snd (scrape_and_save env_empty None None app0)) = 0"
    "topics_collection (snd (scrape_and_save env_empty None None app0)) = []"
    unfolding start by simp_all
  from a b d show ?thesis by blast
qed

text \<open>
  C3 as it is stated, with exactly \<open>min m 5\<close> documents persisted for every batch, fails
  when the database refuses the insert: a batch of one record is displayed as one row, and
  the collection stays empty, with an error banner.
\<close>

theorem displayed_but_not_persisted_counterexample:
  "actor_call env_database_down (Some ''10.0.0.1'') (Some ''8080'') = Inr [topic_named ''A''] \<and>
   scrape_and_save env_database_down (Some ''10.0.0.1'') (Some ''8080'') app0 =
     (Inr (),
      \<lparr>ui = [St_write ''Here are the latest trending topics (Top 5):'',
             St_dataframe
               [\<lparr>ID = ''20240517093059_1'', NAME = ''A'', DATE = ''2024-05-17 09:30:59'',
                 PROXY = ''10.0.0.1:8080''\<rparr>],
             St_error ''Error saving to MongoDB: connection refused''],
       now_calls = 2, clients = 1, inserts = 1, topics_collection = []\<rparr>)"
  by (simp add: env_database_down_def app0_def scrape_and_save_def fetch_latest_topics_def
        datetime_now_def st_def save_to_mongodb_def save_to_mongodb_try_def MongoClient_def
        insert_one_def first_raises_def never_raises_def clock_across_the_minute_def
        before_the_minute_def make_row_def make_document_def dict_get_def topic_named_def
        strftime_compact_def strftime_iso_def four_digits_def two_digits_def digit_def
        str_nat.simps enumerate_eq_zip)

text \<open>
  C10. With two strings as text inputs (otherwise no table is shown), the table is built
  from one reading of the clock and the documents from the next one, taken inside
  \<^verbatim>\<open>save_to_mongodb\<close>. For the i-th record the displayed \<^verbatim>\<open>ID\<close> and
  the persisted \<^verbatim>\<open>unique_id\<close> (and likewise \<^verbatim>\<open>DATE\<close> and
  \<^verbatim>\<open>date_time_of_script_completion\<close>) are equal exactly when the two readings agree to
  the second.
\<close>

theorem display_and_database_read_the_clock_separately:
  assumes "actor_call e (Some proxy_ip) (Some proxy_port) = Inr batch" and "batch \<noteq> []"
    and "mongo_client_raises e (clients s) = None"
    and "\<forall>k<min (length batch) 5. insert_one_raises e (inserts s + k) = None"
    and "valid_datetime (clock e (now_calls s))" and "valid_datetime (clock e (now_calls s + 1))"
  shows "\<exists>rows docs.
     fst (scrape_and_save e (Some proxy_ip) (Some proxy_port) s) = Inr () \<and>
     ui (snd (scrape_and_save e (Some proxy_ip) (Some proxy_port) s)) =
       ui s @ [St_write ''Here are the latest trending topics (Top 5):'', St_dataframe rows,
               St_success ''Results successfully saved to MongoDB!''] \<and>
     topics_collection (snd (scrape_and_save e (Some proxy_ip) (Some proxy_port) s)) = topics_collection s @ docs \<and>
     now_calls (snd (scrape_and_save e (Some proxy_ip) (Some proxy_port) s)) = now_calls s + 2 \<and>
     length rows = min (length batch) 5 \<and> length docs = min (length batch) 5 \<and>
     (\<forall>i<min (length batch) 5.
        ID (rows ! i) = strftime_compact (clock e (now_calls s)) @ ''_'' @ str_nat (i + 1) \<and>
        DATE (rows ! i) = strftime_iso (clock e (now_calls s)) \<and>
        unique_id (docs ! i) = strftime_compact (clock e (now_calls s + 1)) @ ''_'' @ str_nat (i + 1) \<and>
        date_time_of_script_completion (docs ! i) = strftime_iso (clock e (now_calls s + 1)) \<and>
        (ID (rows ! i) = unique_id (docs ! i) \<longleftrightarrow>
           same_second (clock e (now_calls s)) (clock e (now_calls s + 1))) \<and>
        (DATE (rows ! i) = date_time_of_script_completion (docs ! i) \<longleftrightarrow>
           same_second (clock e (now_calls s)) (clock e (now_calls s + 1))))"
proof -
  let ?t1 = "clock e (now_calls s)" and ?t2 = "clock e (now_calls s + 1)"
  let ?rows = "map (make_row ?t1 proxy_ip proxy_port) (enumerate 1 (take 5 batch))"
  let ?docs = "map (make_document ?t2 proxy_ip proxy_port) (enumerate 1 (take 5 batch))"
  let ?s4 = "s\<lparr>now_calls := now_calls s + 1,
      ui := ui s @ [St_write ''Here are the latest trending topics (Top 5):'', St_dataframe ?rows]\<rparr>"
  have run: "scrape_and_save e (Some proxy_ip) (Some proxy_port) s =
      (Inr (), save_to_mongodb e (take 5 batch) ''N/A'' proxy_ip proxy_port ?s4)"
    by (rule scrape_and_save_nonempty [OF assms(1,2)])
  have ret: "fst (scrape_and_save e (Some proxy_ip) (Some proxy_port) s) = Inr ()"
    by (simp add: run)
  have a: "mongo_client_raises e (clients ?s4) = None"
    and b: "\<forall>k<min (length (take 5 batch)) 5. insert_one_raises e (inserts ?s4 + k) = None"
    using assms(3,4) by simp_all
  note saved = save_to_mongodb_ok [OF a b, of "''N/A''" proxy_ip proxy_port]
  have ui: "ui (snd (scrape_and_save e (Some proxy_ip) (Some proxy_port) s)) =
       ui s @ [St_write ''Here are the latest trending topics (Top 5):'', St_dataframe ?rows,
               St_success ''Results successfully saved to MongoDB!'']"
    unfolding run snd_conv saved by simp
  have coll: "topics_collection (snd (scrape_and_save e (Some proxy_ip) (Some proxy_port) s)) = topics_collection s @ ?docs"
    unfolding run snd_conv saved by simp
  have calls: "now_calls (snd (scrape_and_save e (Some proxy_ip) (Some proxy_port) s)) = now_calls s + 2"
    unfolding run snd_conv saved by simp
  have len: "length ?rows = min (length batch) 5" "length ?docs = min (length batch) 5"
    by (simp_all add: min.commute)
  have each: "\<forall>i<min (length batch) 5.
        ID (?rows ! i) = strftime_compact ?t1 @ ''_'' @ str_nat (i + 1) \<and>
        DATE (?rows ! i) = strftime_iso ?t1 \<and>
        unique_id (?docs ! i) = strftime_compact ?t2 @ ''_'' @ str_nat (i + 1) \<and>
        date_time_of_script_completion (?docs ! i) = strftime_iso ?t2 \<and>
        (ID (?rows ! i) = unique_id (?docs ! i) \<longleftrightarrow> same_second ?t1 ?t2) \<and>
        (DATE (?rows ! i) = date_time_of_script_completion (?docs ! i) \<longleftrightarrow> same_second ?t1 ?t2)"
  proof (intro allI impI)
    fix i assume i: "i < min (length batch) 5"
    have r: "ID (?rows ! i) = strftime_compact ?t1 @ ''_'' @ str_nat (i + 1)"
      "DATE (?rows ! i) = strftime_iso ?t1"
      by (simp_all only: nth_rows [OF i] row.simps)
    have d: "unique_id (?docs ! i) = strftime_compact ?t2 @ ''_'' @ str_nat (i + 1)"
      "date_time_of_script_completion (?docs ! i) = strftime_iso ?t2"
      by (simp_all only: nth_documents [OF i] document.simps)
    have id: "ID (?rows ! i) = unique_id (?docs ! i) \<longleftrightarrow> same_second ?t1 ?t2"
      unfolding r d using strftime_compact_inj [OF assms(5,6)] by simp
    have dt: "DATE (?rows ! i) = date_time_of_script_completion (?docs ! i) \<longleftrightarrow> same_second ?t1 ?t2"
      unfolding r d using strftime_iso_inj [OF assms(5,6)] by simp
    from r d id dt
    show "ID (?rows ! i) = strftime_compact ?t1 @ ''_'' @ str_nat (i + 1) \<and>
        DATE (?rows ! i) = strftime_iso ?t1 \<and>
        unique_id (?docs ! i) = strftime_compact ?t2 @ ''_'' @ str_nat (i + 1) \<and>
        date_time_of_script_completion (?docs ! i) = strftime_iso ?t2 \<and>
        (ID (?rows ! i) = unique_id (?docs ! i) \<longleftrightarrow> same_second ?t1 ?t2) \<and>
        (DATE (?rows ! i) = date_time_of_script_completion (?docs ! i) \<longleftrightarrow> same_second ?t1 ?t2)"
      by blast
  qed
  from ret ui coll calls len each show ?thesis by blast
qed

theorem display_and_database_read_the_clock_separately_witness:
  "\<not> same_second before_the_minute after_the_minute \<and>
   (\<exists>rows docs.
      ui (snd (scrape_and_save env_seven (Some ''10.0.0.1'') (Some ''8080'') app0)) =
        [St_write ''Here are the latest trending topics (Top 5):'', St_dataframe rows,
         St_success ''Results successfully saved to MongoDB!''] \<and>
      topics_collection (snd (scrape_and_save env_seven (Some ''10.0.0.1'') (Some ''8080'') app0)) = docs \<and>
      ID (rows ! 0) = ''20240517093059_1'' \<and>
      unique_id (docs ! 0) = ''20240517093100_1'' \<and>
      ID (rows ! 0) \<noteq> unique_id (docs ! 0) \<and>
      DATE (rows ! 0) \<noteq> date_time_of_script_completion (docs ! 0))"
proof -
  have seven: "actor_call env_seven (Some ''10.0.0.1'') (Some ''8080'') = Inr seven_topics"
    by (simp add: env_seven_def)
  have ne: "seven_topics \<noteq> []" and len: "min (length seven_topics) 5 = 5"
    by (simp_all add: seven_topics_def)
  have db: "mongo_client_raises env_seven (clients app0) = None"
    "\<forall>k<min (length seven_topics) 5. insert_one_raises env_seven (inserts app0 + k) = None"
    by (simp_all add: env_seven_def never_raises_def)
  have t1: "clock env_seven (now_calls app0) = before_the_minute"
    and t2: "clock env_seven (now_calls app0 + 1) = after_the_minute"
    by (simp_all add: env_seven_def app0_def clock_across_the_minute_def)
  have valid: "valid_datetime (clock env_seven (now_calls app0))"
    "valid_datetime (clock env_seven (now_calls app0 + 1))"
    unfolding t1 t2 by (simp_all add: valid_datetime_def before_the_minute_def after_the_minute_def)
  have differ: "\<not> same_second before_the_minute after_the_minute"
    by (simp add: same_second_def before_the_minute_def after_the_minute_def)
  have stamps: "strftime_compact before_the_minute = ''20240517093059''"
    "strftime_compact after_the_minute = ''20240517093100''"
    by (simp_all add: before_the_minute_def after_the_minute_def
          strftime_compact_def four_digits_def two_digits_def digit_def)
  have ord: "str_nat (Suc 0) = ''1''"
    by (simp add: str_nat.simps digit_def)
  have start: "ui app0 = []" "topics_collection app0 = []"
    by (simp_all add: app0_def)
  from display_and_database_read_the_clock_separately [OF seven ne db valid]
  obtain rows docs where
    run: "ui (snd (scrape_and_save env_seven (Some ''10.0.0.1'') (Some ''8080'') app0)) =
       ui app0 @ [St_write ''Here are the latest trending topics (Top 5):'', St_dataframe rows,
               St_success ''Results successfully saved to MongoDB!'']"
      "topics_collection (snd (scrape_and_save env_seven (Some ''10.0.0.1'') (Some ''8080'') app0)) = topics_collection app0 @ docs"
    and each: "\<forall>i<min (length seven_topics) 5.
        ID (rows ! i) = strftime_compact (clock env_seven (now_calls app0)) @ ''_'' @ str_nat (i + 1) \<and>
        DATE (rows ! i) = strftime_iso (clock env_seven (now_calls app0)) \<and>
        unique_id (docs ! i) = strftime_compact (clock env_seven (now_calls app0 + 1)) @ ''_'' @ str_nat (i + 1) \<and>
        date_time_of_script_completion (docs ! i) = strftime_iso (clock env_seven (now_calls app0 + 1)) \<and>
        (ID (rows ! i) = unique_id (docs ! i) \<longleftrightarrow>
           same_second (clock env_seven (now_calls app0)) (clock env_seven (now_calls app0 + 1))) \<and>
        (DATE (rows ! i) = date_time_of_script_completion (docs ! i) \<longleftrightarrow>
           same_second (clock env_seven (now_calls app0)) (clock env_seven (now_calls app0 + 1)))"
    by blast
  have "(0::nat) < 5" by simp
  note c = each [unfolded len t1 t2, rule_format, OF this]
  from c have "ID (rows ! 0) = strftime_compact before_the_minute @ ''_'' @ str_nat (0 + 1)"
    and "unique_id (docs ! 0) = strftime_compact after_the_minute @ ''_'' @ str_nat (0 + 1)"
    by blast+
  then have lit: "ID (rows ! 0) = ''20240517093059_1''" "unique_id (docs ! 0) = ''20240517093100_1''"
    by (simp_all add: stamps ord)
  from c differ have ne_id: "ID (rows ! 0) \<noteq> unique_id (docs ! 0)"
    and ne_date: "DATE (rows ! 0) \<noteq> date_time_of_script_completion (docs ! 0)"
    by blast+
  note first = lit ne_id ne_date
  from run [unfolded start] first differ show ?thesis
    by (intro conjI exI [of _ rows] exI [of _ docs]) simp_all
qed

end
